theory Spec2Isabelle
  imports Complex_Main "HOL-Library.Sublist"
begin

section \<open>Python values, exceptions and numpy arrays\<close>

text \<open>
  The development follows \<^verbatim>\<open>DataPipe/pipeline.py\<close>.  Exceptions are values: a
  computation that may raise returns \<open>exn + 'a\<close>, with \<open>Inl\<close> the exception.  Every
  exception below derives from Python's \<^verbatim>\<open>Exception\<close>, so an \<^verbatim>\<open>except Exception\<close>
  clause catches each of them.
\<close>

datatype exn =
    AssertionError
  | KeyError string
  | ValueError
  | IndexError
  | FileNotFoundError
  | FileExistsError
  | EmptyDataError
  | TypeError
  | ExternalError string

type_synonym path = string

text \<open>Tile coordinates are (row, column) = (Y, X) pairs.\<close>

type_synonym location = "int \<times> int"

text \<open>What the pipeline reports: log lines and the effects of its collaborators.\<close>

datatype event =
    Log_info string
  | Log_warn string
  | Mkdir path
  | Rmtree path
  | Slide_loaded path
  | Thumbnail_saved path
  | Tiles_generated nat
  | Tile_saved path
  | Traceback_printed
  | Warned string
  | Slide_incomplete nat
  | Visualized path
  | Merged path
  | Printed string

text \<open>
  One-dimensional numpy arrays are lists.  \<^verbatim>\<open>a & (~b)\<close> on boolean arrays works
  elementwise on equal shapes, broadcasts an array of length one, and raises
  \<^verbatim>\<open>ValueError\<close> otherwise.
\<close>

definition np_and_not :: "bool list \<Rightarrow> bool list \<Rightarrow> exn + bool list" where
  "np_and_not a b =
     (if length a = length b then Inr (map (\<lambda>(x, y). x \<and> \<not> y) (zip a b))
      else if length a = 1 then Inr (map (\<lambda>y. hd a \<and> \<not> y) b)
      else if length b = 1 then Inr (map (\<lambda>x. x \<and> \<not> hd b) a)
      else Inl ValueError)"

text \<open>
  \<^verbatim>\<open>a[mask]\<close> with a boolean mask keeps the entries whose mask bit is set; a mask of
  another length raises \<^verbatim>\<open>IndexError\<close>.
\<close>

definition np_mask_index :: "'a list \<Rightarrow> bool list \<Rightarrow> exn + 'a list" where
  "np_mask_index a m =
     (if length m = length a then Inr (map fst (filter snd (zip a m)))
      else Inl IndexError)"

text \<open>\<^verbatim>\<open>(~selected).sum()\<close>: the number of cleared bits.\<close>

definition count_false :: "bool list \<Rightarrow> nat" where
  "count_false m = length (filter (\<lambda>b. \<not> b) m)"

text \<open>
  \<^verbatim>\<open>tile_locations[:, 0].min()\<close> and its three siblings inside a log message: numpy
  raises \<^verbatim>\<open>ValueError\<close> on a zero-size array, and the values are only printed.
\<close>

definition np_min_max :: "location list \<Rightarrow> exn + (int \<times> int \<times> int \<times> int)" where
  "np_min_max locs =
     (if locs = [] then Inl ValueError
      else Inr (Min (set (map fst locs)), Max (set (map fst locs)),
                Min (set (map snd locs)), Max (set (map snd locs))))"

section \<open>The tile generator and its filters\<close>

text \<open>
  \<^verbatim>\<open>tile_array_2d\<close>, \<^verbatim>\<open>segment_foreground\<close>, \<^verbatim>\<open>ROI_occupancy_filtering\<close> and
  \<^verbatim>\<open>check_empty_tiles\<close> come from \<^verbatim>\<open>WSI_tools\<close> and
  \<^verbatim>\<open>Segmentation_and_filtering_tools\<close>; they are parameters here, and each may raise.
\<close>

record ('img, 'tile, 'mask) tiling_tools =
  tile_array_2d :: "'img \<Rightarrow> int \<Rightarrow> exn + ('tile list \<times> location list)"
  segment_foreground :: "'tile list \<Rightarrow> real \<Rightarrow> exn + ('mask \<times> real)"
  ROI_occupancy_filtering :: "'mask \<Rightarrow> real \<Rightarrow> exn + (bool list \<times> real list)"
  check_empty_tiles :: "'tile list \<Rightarrow> exn + bool list"

text \<open>
  \<^verbatim>\<open>generate_tiles\<close> returns the log lines it emitted together with its result: the
  surviving tiles, their locations, their occupancies and the number of discarded tiles.
\<close>

definition generate_tiles ::
  "('img, 'tile, 'mask, 'more) tiling_tools_scheme \<Rightarrow> 'img \<Rightarrow> int \<Rightarrow> real \<Rightarrow> real \<Rightarrow>
     event list \<times> (exn + ('tile list \<times> location list \<times> real list \<times> nat))" where
  "generate_tiles tools slide_image tile_size foreground_threshold occupancy_threshold =
     (case tile_array_2d tools slide_image tile_size of
        Inl e \<Rightarrow> ([], Inl e)
      | Inr (image_tiles, tile_locations) \<Rightarrow>
     let log1 = [Log_info ''image_tiles.shape'', Log_info ''Tiled''] in
     (case segment_foreground tools image_tiles foreground_threshold of
        Inl e \<Rightarrow> (log1, Inl e)
      | Inr (foreground_mask, _) \<Rightarrow>
     (case ROI_occupancy_filtering tools foreground_mask occupancy_threshold of
        Inl e \<Rightarrow> (log1, Inl e)
      | Inr (selected0, occupancies) \<Rightarrow>
     let log2 = log1 @ [Log_info ''Percentage tiles discarded''] in
     (case check_empty_tiles tools image_tiles of
        Inl e \<Rightarrow> (log2, Inl e)
      | Inr empty_tile_bool_mask \<Rightarrow>
     (case np_and_not selected0 empty_tile_bool_mask of
        Inl e \<Rightarrow> (log2, Inl e)
      | Inr selected \<Rightarrow>
     let n_discarded = count_false selected;
         log3 = log2 @ [Log_info ''Percentage tiles discarded after filtering empty tiles''] in
     (case np_min_max tile_locations of
        Inl e \<Rightarrow> (log3, Inl e)
      | Inr _ \<Rightarrow>
     let log4 = log3 @ [Log_info ''Before filtering''] in
     (case np_mask_index image_tiles selected of
        Inl e \<Rightarrow> (log4, Inl e)
      | Inr image_tiles' \<Rightarrow>
     (case np_mask_index tile_locations selected of
        Inl e \<Rightarrow> (log4, Inl e)
      | Inr tile_locations' \<Rightarrow>
     (case np_mask_index occupancies selected of
        Inl e \<Rightarrow> (log4, Inl e)
      | Inr occupancies' \<Rightarrow>
     let log5 = log4 @ (if length tile_locations' = 0 then [Log_warn ''No tiles selected'']
                        else [Log_info ''After filtering''])
     in (log5, Inr (image_tiles', tile_locations', occupancies', n_discarded)))))))))))"

section \<open>Double precision\<close>

text \<open>
  Line 218 computes in float64.  A float64 value is a finite number \<open>m * 2 ^ e\<close>, an
  infinity with its sign (\<open>True\<close> for the negative one) or NaN.  A float64 proper has
  \<open>\<bar>m\<bar> < 2 ^ 53\<close> and \<open>- 1074 \<le> e\<close>; the sign of a zero is not kept, no operation
  below depends on it.
\<close>

datatype f64 = Finite int int | Infinity bool | NaN

text \<open>The number of binary digits of a natural number.\<close>

fun bit_length :: "nat \<Rightarrow> nat" where
  "bit_length n = (if n = 0 then 0 else Suc (bit_length (n div 2)))"

declare bit_length.simps [simp del]

text \<open>\<open>n / 2 ^ k\<close> rounded to the nearest integer, a tie to the even one.\<close>

definition round_shift :: "nat \<Rightarrow> nat \<Rightarrow> nat" where
  "round_shift n k =
     (if k = 0 then n
      else if 2 ^ (k - 1) < n mod 2 ^ k \<or> (n mod 2 ^ k = 2 ^ (k - 1) \<and> odd (n div 2 ^ k))
      then n div 2 ^ k + 1
      else n div 2 ^ k)"

text \<open>
  The exact number \<open>m * 2 ^ e\<close> rounded to float64.  The digits that go are those
  beyond the 53 leading ones and those below \<open>2 ^ - 1074\<close>; a result from \<open>2 ^ 1024\<close>
  on is an infinity.
\<close>

definition f64_shift :: "nat \<Rightarrow> int \<Rightarrow> nat" where
  "f64_shift n e = nat (max (int (bit_length n) - 53) (- 1074 - e))"

definition f64_pack :: "bool \<Rightarrow> nat \<Rightarrow> int \<Rightarrow> f64" where
  "f64_pack negative q e =
     (if q = 0 then Finite 0 0
      else if 1024 < int (bit_length q) + e then Infinity negative
      else Finite (if negative then - int q else int q) e)"

definition f64_round :: "int \<Rightarrow> int \<Rightarrow> f64" where
  "f64_round m e =
     f64_pack (m < 0) (round_shift (nat \<bar>m\<bar>) (f64_shift (nat \<bar>m\<bar>) e))
       (e + int (f64_shift (nat \<bar>m\<bar>) e))"

text \<open>An int64 entry converted to float64.\<close>

definition f64_of_int :: "int \<Rightarrow> f64" where
  "f64_of_int i = f64_round i 0"

fun f64_mul :: "f64 \<Rightarrow> f64 \<Rightarrow> f64" where
  "f64_mul NaN y = NaN"
| "f64_mul x NaN = NaN"
| "f64_mul (Infinity s) (Infinity t) = Infinity (s \<noteq> t)"
| "f64_mul (Infinity s) (Finite m e) = (if m = 0 then NaN else Infinity (s \<noteq> (m < 0)))"
| "f64_mul (Finite m e) (Infinity s) = (if m = 0 then NaN else Infinity (s \<noteq> (m < 0)))"
| "f64_mul (Finite m1 e1) (Finite m2 e2) = f64_round (m1 * m2) (e1 + e2)"

fun f64_add :: "f64 \<Rightarrow> f64 \<Rightarrow> f64" where
  "f64_add NaN y = NaN"
| "f64_add x NaN = NaN"
| "f64_add (Infinity s) (Infinity t) = (if s = t then Infinity s else NaN)"
| "f64_add (Infinity s) (Finite m e) = Infinity s"
| "f64_add (Finite m e) (Infinity s) = Infinity s"
| "f64_add (Finite m1 e1) (Finite m2 e2) =
     f64_round (m1 * 2 ^ nat (e1 - min e1 e2) + m2 * 2 ^ nat (e2 - min e1 e2)) (min e1 e2)"

text \<open>\<open>m * 2 ^ e\<close> cut off towards zero.\<close>

definition cut_towards_zero :: "int \<Rightarrow> int \<Rightarrow> int" where
  "cut_towards_zero m e =
     (if 0 \<le> e then m * 2 ^ nat e
      else if 0 \<le> m then m div 2 ^ nat (- e)
      else - ((- m) div 2 ^ nat (- e)))"

section \<open>The file system and the collaborators of the slide processor\<close>

text \<open>
  The state is the part of the world the pipeline acts on: the text files it writes (a
  file is the list of lines written to it so far), the directories it creates, and the
  trace of what happened.  Creating directories and writing to the two CSV logs are
  taken to succeed; every call into a collaborator may raise.
\<close>

record world =
  files :: "path \<rightharpoonup> string list"
  dirs :: "path set"
  trace :: "event list"

definition emit :: "event \<Rightarrow> world \<Rightarrow> world" where
  "emit ev w = w\<lparr>trace := trace w @ [ev]\<rparr>"

definition emits :: "event list \<Rightarrow> world \<Rightarrow> world" where
  "emits evs w = w\<lparr>trace := trace w @ evs\<rparr>"

text \<open>\<^verbatim>\<open>Path(a) / b\<close>: an absolute right operand replaces the left one.\<close>

definition path_join :: "path \<Rightarrow> string \<Rightarrow> path" where
  "path_join a b = (if b \<noteq> [] \<and> hd b = CHR ''/'' then b else a @ ''/'' @ b)"

text \<open>\<^verbatim>\<open>p.mkdir(parents=True, exist_ok=True)\<close>.\<close>

definition mkdir :: "path \<Rightarrow> world \<Rightarrow> world" where
  "mkdir p w = emit (Mkdir p) (w\<lparr>dirs := insert p (dirs w)\<rparr>)"

text \<open>\<^verbatim>\<open>p.open('w')\<close> followed by the header line: the file is truncated.\<close>

definition open_w :: "path \<Rightarrow> string \<Rightarrow> world \<Rightarrow> world" where
  "open_w p header w = w\<lparr>files := (files w)(p \<mapsto> [header])\<rparr>"

text \<open>The lines of the file at \<open>p\<close>, none for a file that does not exist.\<close>

definition lines_of :: "world \<Rightarrow> path \<Rightarrow> string list" where
  "lines_of w p = (case files w p of None \<Rightarrow> [] | Some ls \<Rightarrow> ls)"

text \<open>\<^verbatim>\<open>f.write(line + '\n')\<close> on the handle opened at \<open>p\<close>.\<close>

definition write_line :: "path \<Rightarrow> string \<Rightarrow> world \<Rightarrow> world" where
  "write_line p line w = w\<lparr>files := (files w)(p \<mapsto> lines_of w p @ [line])\<rparr>"

text \<open>\<^verbatim>\<open>sep.join(xs)\<close>.\<close>

fun str_join :: "string \<Rightarrow> string list \<Rightarrow> string" where
  "str_join sep [] = []"
| "str_join sep [x] = x"
| "str_join sep (x # y # ys) = x @ sep @ str_join sep (y # ys)"

text \<open>\<^verbatim>\<open>xs[i]\<close> for \<open>i\<close> from \<^verbatim>\<open>range(n)\<close>: out of range raises \<^verbatim>\<open>IndexError\<close>.\<close>

definition nth_py :: "'a list \<Rightarrow> nat \<Rightarrow> exn + 'a" where
  "nth_py xs i = (if i < length xs then Inr (xs ! i) else Inl IndexError)"

text \<open>\<^verbatim>\<open>d[k]\<close> on a dictionary.\<close>

definition dict_get :: "(string \<rightharpoonup> 'v) \<Rightarrow> string \<Rightarrow> exn + 'v" where
  "dict_get d k = (case d k of None \<Rightarrow> Inl (KeyError k) | Some v \<Rightarrow> Inr v)"

text \<open>
  The slide descriptor; \<open>image_file\<close> is its \<^verbatim>\<open>"image"\<close> entry.  \<open>image_path\<close> is optional: \<^verbatim>\<open>main\<close> reads it, the documented
  descriptor (and the one \<^verbatim>\<open>prepare_single_slide_dataset\<close> builds) has no such key.
  The metadata keeps the dictionary's insertion order.
\<close>

record slide_sample =
  slide_id :: string
  image_file :: path
  image_path :: "path option"
  metadata :: "(string \<times> string) list"

text \<open>What \<^verbatim>\<open>Load_a_WSI_with_valid_regions\<close> adds to the sample.\<close>

record 'img loaded_sample =
  roi_image :: 'img
  scale :: f64
  origin :: location
  roi_foreground_threshold :: real

type_synonym tile_info = "string \<rightharpoonup> string"

text \<open>
  The collaborators of \<^verbatim>\<open>process_one_slide\<close>, none of them defined in this file of the
  repository; each may raise.  \<open>is_already_processed\<close> inspects the slide's directory: of
  the state it sees the files.  \<open>plt_savefig\<close> stands for lines 201 to 204
  (\<^verbatim>\<open>plt.figure\<close>, \<^verbatim>\<open>plt.imshow\<close>, \<^verbatim>\<open>plt.savefig\<close>, \<^verbatim>\<open>plt.close\<close>).
\<close>

record ('img, 'tile, 'mask) slide_tools = "('img, 'tile, 'mask) tiling_tools" +
  is_already_processed :: "(path \<rightharpoonup> string list) \<Rightarrow> path \<Rightarrow> bool"
  load_wsi :: "slide_sample \<Rightarrow> int \<Rightarrow> int \<Rightarrow> real option \<Rightarrow> exn + 'img loaded_sample"
  save_thumbnail :: "path \<Rightarrow> path \<Rightarrow> exn + unit"
  plt_savefig :: "'img \<Rightarrow> path \<Rightarrow> exn + unit"
  get_tile_info_dict :: "'img loaded_sample \<Rightarrow> real \<Rightarrow> location \<Rightarrow> path \<Rightarrow> exn + tile_info"
  save_image :: "'tile \<Rightarrow> path \<Rightarrow> exn + unit"
  get_tile_descriptor :: "location \<Rightarrow> exn + string"
  get_tile_id :: "string \<Rightarrow> location \<Rightarrow> exn + string"
  format_csv_row :: "tile_info \<Rightarrow> string list \<Rightarrow> string list \<Rightarrow> exn + string"
  visualize_tile_locations ::
    "'img loaded_sample \<Rightarrow> path \<Rightarrow> tile_info list \<Rightarrow> int \<Rightarrow> location \<Rightarrow> exn + unit"

section \<open>The slide processor\<close>

text \<open>
  \<^verbatim>\<open>.astype(int)\<close> on a float64 array: the value cut off towards zero when that fits
  int64.  What does not fit, an infinity and NaN come out as \<open>- 2 ^ 63\<close>, as the
  conversion instruction of x86-64 leaves them.
\<close>

definition int64_or_min :: "int \<Rightarrow> int" where
  "int64_or_min t = (if - (2 ^ 63) \<le> t \<and> t < 2 ^ 63 then t else - (2 ^ 63))"

fun astype_int :: "f64 \<Rightarrow> int" where
  "astype_int (Finite m e) = int64_or_min (cut_towards_zero m e)"
| "astype_int (Infinity s) = - (2 ^ 63)"
| "astype_int NaN = - (2 ^ 63)"

text \<open>
  One entry of \<^verbatim>\<open>scale * rel_tile_locations + origin\<close>: the location and the origin
  become float64, the product is rounded, then the sum.
\<close>

definition level0_float :: "f64 \<Rightarrow> int \<Rightarrow> int \<Rightarrow> f64" where
  "level0_float sc orig rel = f64_add (f64_mul sc (f64_of_int rel)) (f64_of_int orig)"

text \<open>
  Line 218: \<^verbatim>\<open>(scale * rel_tile_locations + origin).astype(int)\<close>, the origin
  broadcast over the rows.
\<close>

definition to_level0 :: "f64 \<Rightarrow> location \<Rightarrow> location \<Rightarrow> location" where
  "to_level0 sc orig rel =
     (astype_int (level0_float sc (fst orig) (fst rel)),
      astype_int (level0_float sc (snd orig) (snd rel)))"

definition keys_to_save :: "string list" where
  "keys_to_save = [''slide_id'', ''tile_id'', ''image'', ''label'',
                   ''tile_y'', ''tile_x'', ''occupancy'']"

definition metadata_keys :: "slide_sample \<Rightarrow> string list" where
  "metadata_keys sample = map (\<lambda>(key, _). ''slide_'' @ key) (metadata sample)"

definition csv_header :: "slide_sample \<Rightarrow> string" where
  "csv_header sample = str_join '','' (keys_to_save @ metadata_keys sample)"

text \<open>The body of the \<^verbatim>\<open>try\<close> block, lines 233 and 234.\<close>

definition try_save_tile ::
  "('img, 'tile, 'mask) slide_tools \<Rightarrow> 'img loaded_sample \<Rightarrow> path \<Rightarrow> path \<Rightarrow>
     'tile list \<Rightarrow> real list \<Rightarrow> location list \<Rightarrow> nat \<Rightarrow> exn + (tile_info \<times> path)" where
  "try_save_tile tools loaded output_dir rel_slide_dir image_tiles occupancies tile_locations i =
     (case nth_py occupancies i of Inl e \<Rightarrow> Inl e | Inr occ \<Rightarrow>
     (case nth_py tile_locations i of Inl e \<Rightarrow> Inl e | Inr loc \<Rightarrow>
     (case get_tile_info_dict tools loaded occ loc rel_slide_dir of Inl e \<Rightarrow> Inl e | Inr info \<Rightarrow>
     (case nth_py image_tiles i of Inl e \<Rightarrow> Inl e | Inr tile \<Rightarrow>
     (case dict_get info ''image'' of Inl e \<Rightarrow> Inl e | Inr img \<Rightarrow>
     (case save_image tools tile (path_join output_dir img) of Inl e \<Rightarrow> Inl e
      | Inr _ \<Rightarrow> Inr (info, path_join output_dir img)))))))"

text \<open>The variables the save loop updates.\<close>

record loop_state =
  lw :: world
  n_failed_tiles :: nat
  tile_info_list :: "tile_info list"

text \<open>
  One iteration of the loop of lines 230 to 248, with the exception that leaves the
  loop, if any, and the state reached.  Only lines 233 and 234 are inside the
  \<^verbatim>\<open>try\<close>: \<^verbatim>\<open>get_tile_descriptor\<close> and \<^verbatim>\<open>get_tile_id\<close> run in the handler and
  \<^verbatim>\<open>format_csv_row\<close> in the \<^verbatim>\<open>else\<close> branch, so an exception of theirs is not caught.
  \<^verbatim>\<open>warnings.warn\<close> reports under the default filter.
\<close>

definition save_tile_step ::
  "('img, 'tile, 'mask) slide_tools \<Rightarrow> 'img loaded_sample \<Rightarrow> slide_sample \<Rightarrow> path \<Rightarrow> path \<Rightarrow>
     path \<Rightarrow> path \<Rightarrow> 'tile list \<Rightarrow> real list \<Rightarrow> location list \<Rightarrow> nat \<Rightarrow>
     loop_state \<Rightarrow> exn option \<times> loop_state" where
  "save_tile_step tools loaded sample output_dir rel_slide_dir dataset_csv failed_csv
       image_tiles occupancies tile_locations i st =
     (case try_save_tile tools loaded output_dir rel_slide_dir
             image_tiles occupancies tile_locations i of
        Inl e \<Rightarrow>
          let st1 = st\<lparr>n_failed_tiles := n_failed_tiles st + 1\<rparr> in
          (case nth_py tile_locations i of
             Inl e' \<Rightarrow> (Some e', st1)
           | Inr loc \<Rightarrow>
          (case get_tile_descriptor tools loc of
             Inl e' \<Rightarrow> (Some e', st1)
           | Inr descriptor \<Rightarrow>
          let st2 = st1\<lparr>lw := emit Traceback_printed
                                  (write_line failed_csv descriptor (lw st1))\<rparr> in
          (case get_tile_id tools (slide_id sample) loc of
             Inl e' \<Rightarrow> (Some e', st2)
           | Inr tile_id \<Rightarrow> (None, st2\<lparr>lw := emit (Warned tile_id) (lw st2)\<rparr>))))
      | Inr (info, saved_at) \<Rightarrow>
          let st1 = st\<lparr>lw := emit (Tile_saved saved_at) (lw st),
                       tile_info_list := tile_info_list st @ [info]\<rparr> in
          (case format_csv_row tools info keys_to_save (metadata_keys sample) of
             Inl e \<Rightarrow> (Some e, st1)
           | Inr dataset_row \<Rightarrow>
               (None, st1\<lparr>lw := write_line dataset_csv dataset_row (lw st1)\<rparr>)))"

text \<open>
  \<^verbatim>\<open>for i in range(n_tiles)\<close>, over the list of the indices still to visit.  The
  result is the exception that left the loop, if any, and the state reached.
\<close>

fun save_tiles ::
  "('img, 'tile, 'mask) slide_tools \<Rightarrow> 'img loaded_sample \<Rightarrow> slide_sample \<Rightarrow> path \<Rightarrow> path \<Rightarrow>
     path \<Rightarrow> path \<Rightarrow> 'tile list \<Rightarrow> real list \<Rightarrow> location list \<Rightarrow> nat list \<Rightarrow>
     loop_state \<Rightarrow> exn option \<times> loop_state" where
  "save_tiles tools loaded sample output_dir rel_slide_dir dataset_csv failed_csv
       image_tiles occupancies tile_locations [] st = (None, st)"
| "save_tiles tools loaded sample output_dir rel_slide_dir dataset_csv failed_csv
       image_tiles occupancies tile_locations (i # is) st =
     (case save_tile_step tools loaded sample output_dir rel_slide_dir dataset_csv failed_csv
             image_tiles occupancies tile_locations i st of
        (Some e, st') \<Rightarrow> (Some e, st')
      | (None, st') \<Rightarrow> save_tiles tools loaded sample output_dir rel_slide_dir dataset_csv
                        failed_csv image_tiles occupancies tile_locations is st')"

text \<open>\<^verbatim>\<open>os.path.basename\<close>: what follows the last slash.\<close>

definition os_path_basename :: "path \<Rightarrow> string" where
  "os_path_basename p = rev (takeWhile (\<lambda>c. c \<noteq> CHR ''/'') (rev p))"

text \<open>\<^verbatim>\<open>Path(p).name\<close>: the last component, trailing slashes ignored.\<close>

definition path_name :: "path \<Rightarrow> string" where
  "path_name p = os_path_basename (rev (dropWhile (\<lambda>c. c = CHR ''/'') (rev p)))"

text \<open>\<^verbatim>\<open>thumbnail_dir / (slide_image_path.name + suffix)\<close>.\<close>

definition thumbnail_path :: "path \<Rightarrow> slide_sample \<Rightarrow> string \<Rightarrow> path" where
  "thumbnail_path thumbnail_dir sample ending =
     path_join thumbnail_dir (path_name (image_file sample) @ ending)"

text \<open>
  Steps 2 to 4 of \<^verbatim>\<open>process_one_slide\<close>, lines 196 to 270: thumbnails, tiling, the
  save loop, the overlay and the final log lines.  No statement of this part is inside
  a \<^verbatim>\<open>try\<close> except the two lines of \<open>try_save_tile\<close>.
\<close>

definition tile_and_save ::
  "('img, 'tile, 'mask) slide_tools \<Rightarrow> slide_sample \<Rightarrow> 'img loaded_sample \<Rightarrow> int \<Rightarrow> real \<Rightarrow>
     path \<Rightarrow> path \<Rightarrow> path \<Rightarrow> world \<Rightarrow> (exn + path) \<times> world" where
  "tile_and_save tools sample loaded tile_size occupancy_threshold output_dir thumbnail_dir
       output_tiles_dir w0 =
     (let slide_image_path = image_file sample;
          rel_slide_dir = slide_id sample;
          dataset_csv_path = path_join output_tiles_dir ''dataset.csv'';
          failed_tiles_csv_path = path_join output_tiles_dir ''failed_tiles.csv'';
          original_png = thumbnail_path thumbnail_dir sample ''_original.png'';
          roi_png = thumbnail_path thumbnail_dir sample ''_roi.png'';
          roi_tiles_png = thumbnail_path thumbnail_dir sample ''_roi_tiles.png''
      in
      case save_thumbnail tools slide_image_path original_png of
        Inl e \<Rightarrow> (Inl e, w0)
      | Inr _ \<Rightarrow>
      let w1 = emit (Thumbnail_saved original_png) w0 in
      case plt_savefig tools (roi_image loaded) roi_png of
        Inl e \<Rightarrow> (Inl e, w1)
      | Inr _ \<Rightarrow>
      let w2 = emits [Thumbnail_saved roi_png, Log_info ''Saving thumbnail'',
                      Log_info ''Tiling slide''] w1 in
      case generate_tiles tools (roi_image loaded) tile_size
             (roi_foreground_threshold loaded) occupancy_threshold of
        (logs, Inl e) \<Rightarrow> (Inl e, emits logs w2)
      | (logs, Inr (image_tiles, rel_tile_locations, occupancies, _)) \<Rightarrow>
      let w3 = emits logs w2;
          tile_locations = map (to_level0 (scale loaded) (origin loaded)) rel_tile_locations;
          n_tiles = length image_tiles;
          w4 = emits [Tiles_generated n_tiles, Log_info ''tiles found'',
                      Log_info ''Saving tiles for slide''] w3
      in
      case save_tiles tools loaded sample output_dir rel_slide_dir
             dataset_csv_path failed_tiles_csv_path image_tiles occupancies tile_locations
             [0..<n_tiles] \<lparr>lw = w4, n_failed_tiles = 0, tile_info_list = []\<rparr> of
        (Some e, st) \<Rightarrow> (Inl e, lw st)
      | (None, st) \<Rightarrow>
      case visualize_tile_locations tools loaded roi_tiles_png (tile_info_list st)
             tile_size (origin loaded) of
        Inl e \<Rightarrow> (Inl e, lw st)
      | Inr _ \<Rightarrow>
      let w5 = emit (Visualized roi_tiles_png) (lw st);
          w6 = (if n_failed_tiles st > 0 then emit (Slide_incomplete (n_failed_tiles st)) w5
                else w5)
      in (Inr output_tiles_dir, emit (Log_info ''Finished processing slide'') w6))"

text \<open>
  \<^verbatim>\<open>process_one_slide\<close>, lines 138 to 194, then \<open>tile_and_save\<close>.  \<^verbatim>\<open>image_key\<close>
  keeps its default and \<^verbatim>\<open>tile_progress\<close> only drives the progress bar.
\<close>

definition process_one_slide ::
  "('img, 'tile, 'mask) slide_tools \<Rightarrow> slide_sample \<Rightarrow> int \<Rightarrow> int \<Rightarrow> int \<Rightarrow> real option \<Rightarrow>
     real \<Rightarrow> path \<Rightarrow> path \<Rightarrow> bool \<Rightarrow> world \<Rightarrow> (exn + path) \<times> world" where
  "process_one_slide tools sample level margin tile_size foreground_threshold
       occupancy_threshold output_dir thumbnail_dir tile_progress w0 =
     (let w1 = mkdir thumbnail_dir (mkdir output_dir w0);
          output_tiles_dir = path_join output_dir (slide_id sample);
          w2 = emit (Log_info ''Slide dir'') w1
      in
      if is_already_processed tools (files w2) output_tiles_dir
      then (Inr output_tiles_dir, emit (Log_info ''Skipping - already processed'') w2)
      else
        let w3 = mkdir output_tiles_dir w2;
            w4 = open_w (path_join output_tiles_dir ''dataset.csv'') (csv_header sample) w3;
            w5 = open_w (path_join output_tiles_dir ''failed_tiles.csv'') ''tile_id'' w4;
            w6 = emit (Log_info ''Loading slide'') w5
        in
        case load_wsi tools sample level margin foreground_threshold of
          Inl e \<Rightarrow> (Inl e, w6)
        | Inr loaded \<Rightarrow>
            tile_and_save tools sample loaded tile_size occupancy_threshold output_dir
              thumbnail_dir output_tiles_dir (emit (Slide_loaded (image_file sample)) w6))"

section \<open>Strings\<close>

text \<open>Decimal digits, \<^verbatim>\<open>str(n)\<close> and \<^verbatim>\<open>int(s)\<close>.\<close>

definition digit_char :: "nat \<Rightarrow> char" where
  "digit_char d = ''0123456789'' ! d"

definition is_digit :: "char \<Rightarrow> bool" where
  "is_digit c = (c \<in> set ''0123456789'')"

definition digit_val :: "char \<Rightarrow> nat" where
  "digit_val c = of_char c - 48"

fun py_str_nat :: "nat \<Rightarrow> string" where
  "py_str_nat n = (if n < 10 then [digit_char n]
                   else py_str_nat (n div 10) @ [digit_char (n mod 10)])"

declare py_str_nat.simps [simp del]

definition py_str_int :: "int \<Rightarrow> string" where
  "py_str_int i = (if i < 0 then CHR ''-'' # py_str_nat (nat (- i)) else py_str_nat (nat i))"

text \<open>
  The characters \<^verbatim>\<open>str.strip\<close> and \<^verbatim>\<open>int\<close> treat as white space: tab, line feed,
  vertical tab, form feed, carriage return, the four separators and the blank.
\<close>

definition is_space :: "char \<Rightarrow> bool" where
  "is_space c = (of_char c \<in> {9, 10, 11, 12, 13, 28, 29, 30, 31, 32 :: nat})"

definition py_strip :: "string \<Rightarrow> string" where
  "py_strip s = rev (dropWhile is_space (rev (dropWhile is_space s)))"

text \<open>
  The digits of an integer literal: not empty, and an underscore only between two
  digits.
\<close>

fun digit_run :: "string \<Rightarrow> bool" where
  "digit_run [] = False"
| "digit_run [c] = is_digit c"
| "digit_run (c # d # cs) =
     (is_digit c \<and> (if d = CHR ''_'' then digit_run cs else digit_run (d # cs)))"

definition digits_value :: "string \<Rightarrow> nat" where
  "digits_value ds = foldl (\<lambda>a c. 10 * a + digit_val c) 0 ds"

definition py_int :: "string \<Rightarrow> exn + int" where
  "py_int s =
     (let t = py_strip s;
          neg = (t \<noteq> [] \<and> hd t = CHR ''-'');
          body = (if t \<noteq> [] \<and> (hd t = CHR ''-'' \<or> hd t = CHR ''+'') then tl t else t)
      in if digit_run body
         then Inr ((if neg then - 1 else 1) * int (digits_value (filter is_digit body)))
         else Inl ValueError)"

text \<open>\<^verbatim>\<open>s.replace(c, '')\<close> for a single character \<open>c\<close>.\<close>

definition str_remove :: "char \<Rightarrow> string \<Rightarrow> string" where
  "str_remove c s = filter (\<lambda>d. d \<noteq> c) s"

text \<open>
  \<^verbatim>\<open>s.split(sep)\<close> for a separator that is not empty (both separators of the source
  are literals): the pieces between the occurrences of \<open>sep\<close>, from the left.
\<close>

fun py_split :: "string \<Rightarrow> string \<Rightarrow> string list" where
  "py_split sep [] = [[]]"
| "py_split sep (c # cs) =
     (if sep \<noteq> [] \<and> prefix sep (c # cs)
      then [] # py_split sep (drop (length sep - 1) cs)
      else (case py_split sep cs of
              [] \<Rightarrow> [[c]]
            | piece # pieces \<Rightarrow> (c # piece) # pieces))"

text \<open>\<^verbatim>\<open>xs[idx]\<close> on a Python list: a negative index counts from the end.\<close>

definition list_get :: "'a list \<Rightarrow> int \<Rightarrow> exn + 'a" where
  "list_get xs idx =
     (if 0 \<le> idx \<and> idx < int (length xs) then Inr (xs ! nat idx)
      else if idx < 0 \<and> - idx \<le> int (length xs) then Inr (xs ! nat (int (length xs) + idx))
      else Inl IndexError)"

section \<open>The tile encoding dataset\<close>

text \<open>
  \<^verbatim>\<open>.float()\<close> turns an int64 tensor into a float32 one: an integer keeps 24
  significant bits, rounded to nearest, ties to even.  The result is again an integer,
  and this is its value.
\<close>

definition float32_of_nat :: "nat \<Rightarrow> nat" where
  "float32_of_nat n =
     (if n < 2 ^ 24 then n
      else let k = bit_length n - 24;
               q = n div 2 ^ k;
               r = n mod 2 ^ k;
               half = 2 ^ (k - 1)
           in (if half < r \<or> (r = half \<and> odd q) then q + 1 else q) * 2 ^ k)"

definition float32_of_int :: "int \<Rightarrow> int" where
  "float32_of_int i =
     (if i < 0 then - int (float32_of_nat (nat (- i))) else int (float32_of_nat (nat i)))"

text \<open>
  \<^verbatim>\<open>torch.from_numpy(np.array([x, y])).float()\<close>.  Two Python integers that fit
  int64 give an int64 array; beyond that numpy leaves int64 and the conversion is taken
  to raise.
\<close>

definition torch_float_coords :: "int \<Rightarrow> int \<Rightarrow> exn + (int \<times> int)" where
  "torch_float_coords x y =
     (if - (2 ^ 63) \<le> x \<and> x < 2 ^ 63 \<and> - (2 ^ 63) \<le> y \<and> y < 2 ^ 63
      then Inr (float32_of_int x, float32_of_int y)
      else Inl TypeError)"

record 'pic tile_item =
  img :: 'pic
  coords :: "int \<times> int"

text \<open>
  \<^verbatim>\<open>TileEncodingDataset.__getitem__\<close>.  \<open>open_rgb\<close> stands for opening the file and
  \<^verbatim>\<open>Image.open(f).convert("RGB")\<close>; the transform is optional.
\<close>

definition getitem ::
  "(path \<Rightarrow> exn + 'pic) \<Rightarrow> ('pic \<Rightarrow> exn + 'pic) option \<Rightarrow> path list \<Rightarrow> int \<Rightarrow>
     exn + 'pic tile_item" where
  "getitem open_rgb transform image_paths idx =
     (case list_get image_paths idx of Inl e \<Rightarrow> Inl e | Inr img_path \<Rightarrow>
      let img_name = os_path_basename img_path in
      (case py_split ''_'' (hd (py_split ''.png'' img_name)) of
         [xs, ys] \<Rightarrow>
           (case py_int (str_remove (CHR ''x'') xs) of Inl e \<Rightarrow> Inl e | Inr x \<Rightarrow>
           (case py_int (str_remove (CHR ''y'') ys) of Inl e \<Rightarrow> Inl e | Inr y \<Rightarrow>
           (case open_rgb img_path of Inl e \<Rightarrow> Inl e | Inr pic \<Rightarrow>
           (case (case transform of None \<Rightarrow> Inr pic | Some f \<Rightarrow> f pic) of
              Inl e \<Rightarrow> Inl e
            | Inr pic' \<Rightarrow>
           (case torch_float_coords x y of Inl e \<Rightarrow> Inl e
            | Inr c \<Rightarrow> Inr \<lparr>img = pic', coords = c\<rparr>)))))
       | _ \<Rightarrow> Inl ValueError))"

text \<open>The file name \<^verbatim>\<open><x>x_<y>y.png\<close> of a tile at column \<open>x\<close> and row \<open>y\<close>.\<close>

definition tile_file_name :: "nat \<Rightarrow> nat \<Rightarrow> string" where
  "tile_file_name x y = py_str_nat x @ ''x_'' @ py_str_nat y @ ''y.png''"

section \<open>Tiling a single slide for inference\<close>

text \<open>\<^verbatim>\<open>p.exists()\<close> for a path of the output tree.\<close>

definition path_exists :: "world \<Rightarrow> path \<Rightarrow> bool" where
  "path_exists w p = (p \<in> dirs w \<or> files w p \<noteq> None)"

text \<open>
  \<^verbatim>\<open>len(pd.read_csv(p))\<close>: blank lines are skipped, the first line left is the
  header, and every other line is a data row.  A missing file and a file without a
  header raise.
\<close>

definition pd_read_csv_len :: "world \<Rightarrow> path \<Rightarrow> exn + nat" where
  "pd_read_csv_len w p =
     (case files w p of
        None \<Rightarrow> Inl FileNotFoundError
      | Some ls \<Rightarrow>
          (case filter (\<lambda>l. l \<noteq> []) ls of
             [] \<Rightarrow> Inl EmptyDataError
           | header # rows \<Rightarrow> Inr (length rows)))"

definition prepare_single_slide_dataset ::
  "('img, 'tile, 'mask) slide_tools \<Rightarrow> path \<Rightarrow> path \<Rightarrow> int \<Rightarrow> int \<Rightarrow> world \<Rightarrow>
     (exn + unit) \<times> world" where
  "prepare_single_slide_dataset tools slide_file save_dir level tile_size w0 =
     (let slide_sample = \<lparr>slide_id = os_path_basename slide_file, image_file = slide_file,
                           image_path = None, metadata = []\<rparr>;
          w1 = (if path_exists w0 save_dir
                then emit (Printed ''Warning: Directory already exists'') w0 else w0);
          w2 = emit (Printed ''Processing slide'') w1
      in
      case process_one_slide tools slide_sample level 0 tile_size None (1 / 10)
             (path_join save_dir ''output'') (path_join save_dir ''thumbnails'') True w2 of
        (Inl e, w3) \<Rightarrow> (Inl e, w3)
      | (Inr slide_dir, w3) \<Rightarrow>
      (case pd_read_csv_len w3 (path_join slide_dir ''dataset.csv'') of
        Inl e \<Rightarrow> (Inl e, w3)
      | Inr n_dataset \<Rightarrow>
      if \<not> 0 < n_dataset then (Inl AssertionError, w3)
      else
      (case pd_read_csv_len w3 (path_join slide_dir ''failed_tiles.csv'') of
        Inl e \<Rightarrow> (Inl e, w3)
      | Inr n_failed \<Rightarrow>
      if n_failed \<noteq> 0 then (Inl AssertionError, w3)
      else (Inr (), emit (Printed ''Slide has been tiled'') w3))))"

section \<open>The dataset orchestrator\<close>

text \<open>\<^verbatim>\<open>xs[:n]\<close>, with \<^verbatim>\<open>None\<close> for no limit and a negative \<open>n\<close> counting from the end.\<close>

definition slice_upto :: "'a list \<Rightarrow> int option \<Rightarrow> 'a list" where
  "slice_upto xs n =
     (case n of
        None \<Rightarrow> xs
      | Some k \<Rightarrow> if 0 \<le> k then take (nat k) xs else take (nat (int (length xs) + k)) xs)"

text \<open>
  Lines 302 to 304: \<^verbatim>\<open>sample["image_path"]\<close> is looked up and the file must exist.
  \<open>slide_file_exists\<close> answers for the input files on disk.
\<close>

fun check_slide_files :: "(path \<Rightarrow> bool) \<Rightarrow> slide_sample list \<Rightarrow> exn + unit" where
  "check_slide_files slide_file_exists [] = Inr ()"
| "check_slide_files slide_file_exists (sample # rest) =
     (case image_path sample of
        None \<Rightarrow> Inl (KeyError ''image_path'')
      | Some p \<Rightarrow>
          if slide_file_exists p then check_slide_files slide_file_exists rest
          else Inl AssertionError)"

text \<open>\<^verbatim>\<open>shutil.rmtree(p)\<close>: the directory and everything below it.\<close>

definition below :: "path \<Rightarrow> path \<Rightarrow> bool" where
  "below p q = (q = p \<or> prefix (p @ ''/'') q)"

definition rmtree :: "path \<Rightarrow> world \<Rightarrow> world" where
  "rmtree p w =
     emit (Rmtree p)
       (w\<lparr>files := (\<lambda>q. if below p q then None else files w q),
          dirs := Set.filter (\<lambda>q. \<not> below p q) (dirs w)\<rparr>)"

text \<open>\<^verbatim>\<open>list(map(func, dataset))\<close>: the slides in order, the first exception ends it.\<close>

fun process_slides ::
  "('img, 'tile, 'mask) slide_tools \<Rightarrow> int \<Rightarrow> int \<Rightarrow> int \<Rightarrow> real option \<Rightarrow> real \<Rightarrow> path \<Rightarrow>
     path \<Rightarrow> slide_sample list \<Rightarrow> world \<Rightarrow> (exn + unit) \<times> world" where
  "process_slides tools level margin tile_size foreground_threshold occupancy_threshold
       output_dir thumbnail_dir [] w = (Inr (), w)"
| "process_slides tools level margin tile_size foreground_threshold occupancy_threshold
       output_dir thumbnail_dir (sample # rest) w =
     (case process_one_slide tools sample level margin tile_size foreground_threshold
             occupancy_threshold output_dir thumbnail_dir True w of
        (Inl e, w') \<Rightarrow> (Inl e, w')
      | (Inr _, w') \<Rightarrow>
          process_slides tools level margin tile_size foreground_threshold
            occupancy_threshold output_dir thumbnail_dir rest w')"

text \<open>
  \<^verbatim>\<open>main\<close> with \<^verbatim>\<open>parallel=False\<close>, its default.  \<open>merge_dataset_csv_files\<close> is a
  collaborator.
\<close>

definition main ::
  "('img, 'tile, 'mask) slide_tools \<Rightarrow> (path \<Rightarrow> bool) \<Rightarrow> (path \<Rightarrow> world \<Rightarrow> exn + world) \<Rightarrow>
     slide_sample list \<Rightarrow> path \<Rightarrow> int \<Rightarrow> int \<Rightarrow> int \<Rightarrow> real option \<Rightarrow> real \<Rightarrow> bool \<Rightarrow>
     int option \<Rightarrow> world \<Rightarrow> (exn + unit) \<times> world" where
  "main tools slide_file_exists merge_dataset_csv_files slides_dataset root_output_dir
       level tile_size margin foreground_threshold occupancy_threshold overwrite n_slides w0 =
     (let dataset = slice_upto slides_dataset n_slides in
      case check_slide_files slide_file_exists dataset of
        Inl e \<Rightarrow> (Inl e, w0)
      | Inr _ \<Rightarrow>
      let output_dir = root_output_dir;
          w1 = emit (Log_info ''Creating dataset'') w0;
          w2 = (if overwrite \<and> path_exists w1 output_dir then rmtree output_dir w1 else w1)
      in
      if overwrite \<and> path_exists w2 output_dir then (Inl FileExistsError, w2)
      else
      let thumbnail_dir = path_join output_dir ''thumbnails'';
          w3 = emit (Log_info ''Thumbnail directory'') (mkdir thumbnail_dir (mkdir output_dir w2))
      in
      case process_slides tools level margin tile_size foreground_threshold
             occupancy_threshold output_dir thumbnail_dir dataset w3 of
        (Inl e, w4) \<Rightarrow> (Inl e, w4)
      | (Inr _, w4) \<Rightarrow>
      let w5 = emit (Log_info ''Merging slide files into a single file'') w4 in
      (case merge_dataset_csv_files output_dir w5 of
         Inl e \<Rightarrow> (Inl e, w5)
       | Inr w6 \<Rightarrow> (Inr (), emit (Merged output_dir) w6)))"

section \<open>A small instance\<close>

text \<open>
  An instance of the collaborators, to run the definitions on.  The region of interest
  is a list with one number per tile, the percentage of foreground pixels in it: a tile
  is selected when its occupancy reaches the threshold, a tile of 100 is flagged as
  empty, and saving the tile 77 fails.  The scale is 2.  The slide \<^verbatim>\<open>missing.svs\<close>
  cannot be loaded.
\<close>

definition demo_descriptor :: "location \<Rightarrow> string" where
  "demo_descriptor loc = py_str_int (snd loc) @ ''x_'' @ py_str_int (fst loc) @ ''y''"

definition demo_tools :: "nat list \<Rightarrow> (nat list, nat, nat list) slide_tools" where
  "demo_tools roi =
     \<lparr>tile_array_2d = (\<lambda>arr ts. Inr (arr, map (\<lambda>i. (0, int i * ts)) [0..<length arr])),
      segment_foreground = (\<lambda>tiles thr. Inr (tiles, thr)),
      ROI_occupancy_filtering =
        (\<lambda>fg thr. Inr (map (\<lambda>p. thr \<le> real p / 100) fg, map (\<lambda>p. real p / 100) fg)),
      check_empty_tiles = (\<lambda>tiles. Inr (map (\<lambda>p. p = 100) tiles)),
      is_already_processed =
        (\<lambda>fs d. case fs (path_join d ''dataset.csv'') of
                  Some (header # row # rows) \<Rightarrow> True
                | _ \<Rightarrow> False),
      load_wsi =
        (\<lambda>sample level margin thr.
           if image_file sample = ''missing.svs'' then Inl FileNotFoundError
           else Inr \<lparr>roi_image = roi, scale = Finite 1 1, origin = (1000, 2000),
                     roi_foreground_threshold = (case thr of None \<Rightarrow> 200 | Some t \<Rightarrow> t)\<rparr>),
      save_thumbnail = (\<lambda>slide out. Inr ()),
      plt_savefig = (\<lambda>arr out. Inr ()),
      get_tile_info_dict =
        (\<lambda>loaded occ loc rel.
           Inr (map_of [(''image'', rel @ ''/'' @ demo_descriptor loc @ ''.png''),
                        (''tile_id'', demo_descriptor loc)])),
      save_image = (\<lambda>tile out. if tile = 77 then Inl (ExternalError ''broken tile'') else Inr ()),
      get_tile_descriptor = (\<lambda>loc. Inr (demo_descriptor loc)),
      get_tile_id = (\<lambda>sid loc. Inr (sid @ ''.'' @ demo_descriptor loc)),
      format_csv_row =
        (\<lambda>info keys mkeys.
           Inr (str_join '','' (map (\<lambda>k. case info k of None \<Rightarrow> [] | Some v \<Rightarrow> v)
                                  (keys @ mkeys)))),
      visualize_tile_locations = (\<lambda>loaded out infos ts orig. Inr ())\<rparr>"

definition demo_sample :: slide_sample where
  "demo_sample = \<lparr>slide_id = ''s1'', image_file = ''wsi/s1.svs'', image_path = Some ''wsi/s1.svs'',
                   metadata = []\<rparr>"

definition empty_world :: world where
  "empty_world = \<lparr>files = Map.empty, dirs = {}, trace = []\<rparr>"

text \<open>The same collaborators, except that the figure of the region cannot be saved.\<close>

definition demo_tools_no_figure :: "nat list \<Rightarrow> (nat list, nat, nat list) slide_tools" where
  "demo_tools_no_figure roi =
     (demo_tools roi)\<lparr>plt_savefig := (\<lambda>arr out. Inl (ExternalError ''cannot write figure''))\<rparr>"

text \<open>The same, except that the thumbnail of the slide cannot be saved.\<close>

definition demo_tools_no_thumbnail :: "nat list \<Rightarrow> (nat list, nat, nat list) slide_tools" where
  "demo_tools_no_thumbnail roi =
     (demo_tools roi)\<lparr>save_thumbnail := (\<lambda>slide out. Inl (ExternalError ''cannot write thumbnail''))\<rparr>"

text \<open>
  The descriptor of the same slide as line 362 builds it, with the entries
  \<^verbatim>\<open>"image"\<close>, \<^verbatim>\<open>"slide_id"\<close> and \<^verbatim>\<open>"metadata"\<close> only, and the files on disk.
\<close>

definition demo_sample_plain :: slide_sample where
  "demo_sample_plain = \<lparr>slide_id = ''s1'', image_file = ''wsi/s1.svs'',
                         image_path = None, metadata = []\<rparr>"

definition demo_disk :: "path \<Rightarrow> bool" where
  "demo_disk p = (p = ''wsi/s1.svs'')"

definition demo_merge :: "path \<Rightarrow> world \<Rightarrow> exn + world" where
  "demo_merge output_dir w = Inr w"

text \<open>A state in which the slide \<^verbatim>\<open>s1\<close> has been processed, and the region that gave it.\<close>

definition processed_world :: world where
  "processed_world =
     \<lparr>files = [''out/s1/dataset.csv'' \<mapsto>
                  [''slide_id,tile_id,image,label,tile_y,tile_x,occupancy'',
                   '',2000x_1000y,s1/2000x_1000y.png,,,,''],
                ''out/s1/failed_tiles.csv'' \<mapsto> [''tile_id'']],
      dirs = {''out'', ''thumbs'', ''out/s1''}, trace = []\<rparr>"

definition demo_loaded :: "nat list \<Rightarrow> nat list loaded_sample" where
  "demo_loaded roi = \<lparr>roi_image = roi, scale = Finite 1 1, origin = (1000, 2000),
                       roi_foreground_threshold = 200\<rparr>"

section \<open>Vocabulary of the statements\<close>

text \<open>
  The indices of the tiles that the foreground filter selects and the empty-tile filter
  does not flag.
\<close>

definition kept_indices :: "bool list \<Rightarrow> bool list \<Rightarrow> nat list" where
  "kept_indices sel flagged = filter (\<lambda>i. sel ! i \<and> \<not> flagged ! i) [0..<length sel]"

text \<open>The number a finite float64 stands for.\<close>

definition f64_value :: "int \<Rightarrow> int \<Rightarrow> real" where
  "f64_value m e =
     (if 0 \<le> e then real_of_int m * 2 ^ nat e else real_of_int m / 2 ^ nat (- e))"

section \<open>Evaluating the instance\<close>

text \<open>The binary digits of a numeral, one at a time.\<close>

lemma bit_length_0: "bit_length 0 = 0"
  by (simp add: bit_length.simps)

lemma bit_length_1: "bit_length 1 = 1"
  by (simp add: bit_length.simps)

lemma bit_length_Suc_0: "bit_length (Suc 0) = 1"
  by (simp add: bit_length.simps)

lemma bit_length_Bit0: "bit_length (numeral (Num.Bit0 k)) = Suc (bit_length (numeral k))"
  by (subst bit_length.simps) simp

lemma bit_length_Bit1: "bit_length (numeral (Num.Bit1 k)) = Suc (bit_length (numeral k))"
  by (subst bit_length.simps) simp

lemmas f64_simps = f64_of_int_def f64_round_def f64_shift_def f64_pack_def round_shift_def
  bit_length_0 bit_length_1 bit_length_Suc_0 bit_length_Bit0 bit_length_Bit1
  level0_float_def int64_or_min_def cut_towards_zero_def

lemmas demo_simps = demo_tools_def demo_descriptor_def demo_sample_def empty_world_def
  generate_tiles_def np_and_not_def np_mask_index_def count_false_def np_min_max_def
  Let_def process_one_slide_def tile_and_save_def mkdir_def emit_def emits_def
  path_join_def open_w_def csv_header_def keys_to_save_def metadata_keys_def
  thumbnail_path_def path_name_def os_path_basename_def
  to_level0_def f64_simps
  save_tile_step_def try_save_tile_def nth_py_def dict_get_def write_line_def lines_of_def
  py_str_int_def py_str_nat.simps digit_char_def upt_conv_Cons

lemmas demo_simps2 = demo_simps demo_tools_no_figure_def demo_tools_no_thumbnail_def
  demo_sample_plain_def demo_disk_def demo_merge_def processed_world_def demo_loaded_def

section \<open>Boolean masks\<close>

lemma mask_index_length:
  "length m = length a \<Longrightarrow> length (filter snd (zip a m)) = length (filter (\<lambda>b. b) m)"
  by (induction a m rule: list_induct2') auto

lemma np_mask_index_length:
  "np_mask_index a m = Inr a' \<Longrightarrow> length a' = length (filter (\<lambda>b. b) m)"
  by (auto simp: np_mask_index_def mask_index_length split: if_splits)

lemma mask_index_nth:
  "length m = length a \<Longrightarrow>
     map fst (filter snd (zip a m)) = map (nth a) (filter (nth m) [0..<length a])"
proof (induction a m rule: list_induct2')
  case (4 x xs y ys)
  have "[0..<length (x # xs)] = 0 # map Suc [0..<length xs]"
    by (simp add: upt_conv_Cons map_Suc_upt del: upt_Suc)
  with 4 show ?case
    by (simp add: filter_map o_def)
qed simp_all

lemma np_mask_index_kept:
  assumes "length a = length sel" "length flagged = length sel"
  shows "np_mask_index a (map (\<lambda>(x, y). x \<and> \<not> y) (zip sel flagged))
           = Inr (map (nth a) (kept_indices sel flagged))"
proof -
  let ?m = "map (\<lambda>(x, y). x \<and> \<not> y) (zip sel flagged)"
  have len: "length ?m = length a" using assms by simp
  have "filter (nth ?m) [0..<length a] = kept_indices sel flagged"
    unfolding kept_indices_def using assms
    by (auto intro!: filter_cong)
  with len show ?thesis
    by (simp add: np_mask_index_def mask_index_nth)
qed

section \<open>Properties of the tile generator\<close>

lemma generate_tiles_lengths:
  "generate_tiles tools slide_image tile_size foreground_threshold occupancy_threshold
     = (logs, Inr (image_tiles, tile_locations, occupancies, n_discarded)) \<Longrightarrow>
   length image_tiles = length tile_locations \<and> length tile_locations = length occupancies"
  unfolding generate_tiles_def Let_def
  by (auto split: sum.splits prod.splits dest!: np_mask_index_length)

lemma generate_tiles_warns:
  "generate_tiles tools slide_image tile_size foreground_threshold occupancy_threshold
     = (logs, Inr (image_tiles, [], occupancies, n_discarded)) \<Longrightarrow>
   Log_warn ''No tiles selected'' \<in> set logs"
  unfolding generate_tiles_def Let_def
  by (auto split: sum.splits prod.splits)

text \<open>
  Claim C10.  Whenever \<^verbatim>\<open>generate_tiles\<close> returns, the tiles, the tile locations and
  the occupancies it returns have the same length: all three were indexed by the same
  boolean mask.
\<close>

theorem generate_tiles_same_length:
  "generate_tiles tools slide_image tile_size foreground_threshold occupancy_threshold
     = (logs, Inr (image_tiles, tile_locations, occupancies, n_discarded)) \<Longrightarrow>
   length image_tiles = length tile_locations \<and> length tile_locations = length occupancies"
  by (rule generate_tiles_lengths)

text \<open>The instance with four tiles returns two of them.\<close>

theorem generate_tiles_same_length_witness:
  "generate_tiles (demo_tools []) [50, 3, 100, 77] 256 200 (1 / 10)
     = ([Log_info ''image_tiles.shape'', Log_info ''Tiled'',
         Log_info ''Percentage tiles discarded'',
         Log_info ''Percentage tiles discarded after filtering empty tiles'',
         Log_info ''Before filtering'', Log_info ''After filtering''],
        Inr ([50, 77], [(0, 0), (0, 768)], [1 / 2, 77 / 100], 2))
   \<and> length [50, 77 :: nat] = length [(0, 0), (0, 768 :: int)]
   \<and> length [(0, 0), (0, 768 :: int)] = length [1 / 2, 77 / 100 :: real]"
proof -
  have run: "generate_tiles (demo_tools []) [50, 3, 100, 77] 256 200 (1 / 10)
     = ([Log_info ''image_tiles.shape'', Log_info ''Tiled'',
         Log_info ''Percentage tiles discarded'',
         Log_info ''Percentage tiles discarded after filtering empty tiles'',
         Log_info ''Before filtering'', Log_info ''After filtering''],
        Inr ([50, 77], [(0, 0), (0, 768)], [1 / 2, 77 / 100], 2))"
    by (simp add: demo_simps)
  from generate_tiles_same_length [OF run] run show ?thesis by simp
qed

text \<open>
  Claim C5.  When the four helpers return one entry per generated tile and at least one
  tile was generated, \<^verbatim>\<open>generate_tiles\<close> returns, and what it returns are exactly the
  tiles, locations and occupancies at the indices whose occupancy selection is true and
  whose empty-tile flag is false, in grid order.  (With no tile at all the log line of
  line 97 raises and nothing is returned.)
\<close>

theorem generate_tiles_survivors:
  assumes tiles: "tile_array_2d tools slide_image tile_size = Inr (tiles, locs)"
    and fg: "segment_foreground tools tiles foreground_threshold = Inr (fg_mask, thr)"
    and occ: "ROI_occupancy_filtering tools fg_mask occupancy_threshold = Inr (sel, occs)"
    and flagged: "check_empty_tiles tools tiles = Inr flagged"
    and len: "length tiles = length sel" "length locs = length sel"
             "length occs = length sel" "length flagged = length sel"
    and some: "tiles \<noteq> []"
  shows "\<exists>n_discarded.
           snd (generate_tiles tools slide_image tile_size foreground_threshold
                  occupancy_threshold)
           = Inr (map (nth tiles) (kept_indices sel flagged),
                  map (nth locs) (kept_indices sel flagged),
                  map (nth occs) (kept_indices sel flagged), n_discarded)"
proof -
  from len have sel: "np_and_not sel flagged = Inr (map (\<lambda>(x, y). x \<and> \<not> y) (zip sel flagged))"
    by (simp add: np_and_not_def)
  from some len have "locs \<noteq> []" by auto
  then have "\<exists>mm. np_min_max locs = Inr mm"
    by (simp add: np_min_max_def)
  then obtain mm where minmax: "np_min_max locs = Inr mm" ..
  show ?thesis
    unfolding generate_tiles_def
    by (simp add: tiles fg occ flagged sel minmax Let_def
          np_mask_index_kept [OF len(1) len(4)] np_mask_index_kept [OF len(2) len(4)]
          np_mask_index_kept [OF len(3) len(4)])
qed

text \<open>
  Of the four tiles 50, 3, 100 and 77, the second is below the threshold and the third
  is flagged.
\<close>

theorem generate_tiles_survivors_witness:
  "kept_indices [True, False, True, True] [False, False, True, False] = [0, 3]
   \<and> (\<exists>n_discarded.
         snd (generate_tiles (demo_tools []) [50, 3, 100, 77] 256 200 (1 / 10))
         = Inr (map (nth [50, 3, 100, 77]) (kept_indices [True, False, True, True] [False, False, True, False]),
                map (nth [(0, 0), (0, 256), (0, 512), (0, 768)]) (kept_indices [True, False, True, True] [False, False, True, False]),
                map (nth [1 / 2, 3 / 100, 1, 77 / 100]) (kept_indices [True, False, True, True] [False, False, True, False]),
                n_discarded))"
proof -
  have 1: "tile_array_2d (demo_tools []) [50, 3, 100, 77] 256
             = Inr ([50, 3, 100, 77], [(0, 0), (0, 256), (0, 512), (0, 768)])"
    by (simp add: demo_tools_def upt_conv_Cons)
  have 2: "segment_foreground (demo_tools []) [50, 3, 100, 77] 200 = Inr ([50, 3, 100, 77], 200)"
    by (simp add: demo_tools_def)
  have 3: "ROI_occupancy_filtering (demo_tools []) [50, 3, 100, 77] (1 / 10)
             = Inr ([True, False, True, True], [1 / 2, 3 / 100, 1, 77 / 100])"
    by (simp add: demo_tools_def)
  have 4: "check_empty_tiles (demo_tools []) [50, 3, 100, 77] = Inr [False, False, True, False]"
    by (simp add: demo_tools_def)
  have k: "kept_indices [True, False, True, True] [False, False, True, False] = [0, 3]"
    by (simp add: kept_indices_def upt_conv_Cons)
  from generate_tiles_survivors [OF 1 2 3 4] k show ?thesis by simp
qed

text \<open>
  When the tile generator yields no tile at all, nothing is filtered: the log line of
  line 97 takes the minimum of an empty array and \<^verbatim>\<open>generate_tiles\<close> raises.
\<close>

lemma generate_tiles_nothing_to_filter:
  assumes "tile_array_2d tools slide_image tile_size = Inr (tiles, [])"
    and "segment_foreground tools tiles foreground_threshold = Inr (fg_mask, thr)"
    and "ROI_occupancy_filtering tools fg_mask occupancy_threshold = Inr (sel, occs)"
    and "check_empty_tiles tools tiles = Inr flagged"
    and "length flagged = length sel"
  shows "snd (generate_tiles tools slide_image tile_size foreground_threshold
                occupancy_threshold) = Inl ValueError"
  using assms by (simp add: generate_tiles_def np_and_not_def np_min_max_def Let_def)

section \<open>Files and traces\<close>

lemma lines_of_emit [simp]: "lines_of (emit ev w) p = lines_of w p"
  by (simp add: lines_of_def emit_def)

lemma lines_of_emits [simp]: "lines_of (emits evs w) p = lines_of w p"
  by (simp add: lines_of_def emits_def)

lemma lines_of_mkdir [simp]: "lines_of (mkdir d w) p = lines_of w p"
  by (simp add: lines_of_def mkdir_def emit_def)

lemma lines_of_write_line:
  "lines_of (write_line p l w) q = (if q = p then lines_of w p @ [l] else lines_of w q)"
  by (simp add: lines_of_def write_line_def)

lemma lines_of_open_w:
  "lines_of (open_w p header w) q = (if q = p then [header] else lines_of w q)"
  by (simp add: lines_of_def open_w_def)

lemma files_emit [simp]: "files (emit ev w) = files w"
  by (simp add: emit_def)

lemma files_emits [simp]: "files (emits evs w) = files w"
  by (simp add: emits_def)

lemma files_mkdir [simp]: "files (mkdir d w) = files w"
  by (simp add: mkdir_def emit_def)

lemma trace_emit [simp]: "trace (emit ev w) = trace w @ [ev]"
  by (simp add: emit_def)

lemma trace_emits [simp]: "trace (emits evs w) = trace w @ evs"
  by (simp add: emits_def)

lemma trace_mkdir [simp]: "trace (mkdir d w) = trace w @ [Mkdir d]"
  by (simp add: mkdir_def emit_def)

lemma trace_open_w [simp]: "trace (open_w p header w) = trace w"
  by (simp add: open_w_def)

lemma trace_write_line [simp]: "trace (write_line p l w) = trace w"
  by (simp add: write_line_def)

lemma csv_paths_distinct: "path_join d ''dataset.csv'' \<noteq> path_join d ''failed_tiles.csv''"
  by (simp add: path_join_def)

section \<open>Properties of the save loop\<close>

text \<open>
  One iteration, when the formatting helper it reaches returns: nothing leaves the loop,
  and the tile adds one line to exactly one of the two logs.
\<close>

lemma save_tile_step_records:
  assumes i: "i < length tile_locations"
    and distinct: "dataset_csv \<noteq> failed_csv"
    and handler: "isl (try_save_tile tools loaded output_dir rel_slide_dir
                         image_tiles occupancies tile_locations i) \<Longrightarrow>
                  \<exists>d t. get_tile_descriptor tools (tile_locations ! i) = Inr d
                        \<and> get_tile_id tools (slide_id sample) (tile_locations ! i) = Inr t"
    and row: "\<not> isl (try_save_tile tools loaded output_dir rel_slide_dir
                         image_tiles occupancies tile_locations i) \<Longrightarrow>
              \<exists>r. format_csv_row tools
                     (fst (projr (try_save_tile tools loaded output_dir rel_slide_dir
                                    image_tiles occupancies tile_locations i)))
                     keys_to_save (metadata_keys sample) = Inr r"
  shows "\<exists>st1. save_tile_step tools loaded sample output_dir rel_slide_dir dataset_csv
                 failed_csv image_tiles occupancies tile_locations i st = (None, st1)
          \<and> lines_of (lw st1) dataset_csv = lines_of (lw st) dataset_csv @
               (if isl (try_save_tile tools loaded output_dir rel_slide_dir
                          image_tiles occupancies tile_locations i) then []
                else [projr (format_csv_row tools
                        (fst (projr (try_save_tile tools loaded output_dir rel_slide_dir
                                       image_tiles occupancies tile_locations i)))
                        keys_to_save (metadata_keys sample))])
          \<and> lines_of (lw st1) failed_csv = lines_of (lw st) failed_csv @
               (if isl (try_save_tile tools loaded output_dir rel_slide_dir
                          image_tiles occupancies tile_locations i)
                then [projr (get_tile_descriptor tools (tile_locations ! i))] else [])
          \<and> n_failed_tiles st1 = n_failed_tiles st +
               (if isl (try_save_tile tools loaded output_dir rel_slide_dir
                          image_tiles occupancies tile_locations i) then 1 else 0)
          \<and> tile_info_list st1 = tile_info_list st @
               (if isl (try_save_tile tools loaded output_dir rel_slide_dir
                          image_tiles occupancies tile_locations i) then []
                else [fst (projr (try_save_tile tools loaded output_dir rel_slide_dir
                                    image_tiles occupancies tile_locations i))])
          \<and> set (trace (lw st)) \<subseteq> set (trace (lw st1))"
proof (cases "try_save_tile tools loaded output_dir rel_slide_dir
                image_tiles occupancies tile_locations i")
  case (Inl e)
  with handler obtain d t where
    "get_tile_descriptor tools (tile_locations ! i) = Inr d"
    "get_tile_id tools (slide_id sample) (tile_locations ! i) = Inr t"
    by auto
  with Inl i distinct show ?thesis
    by (auto simp: save_tile_step_def nth_py_def Let_def lines_of_write_line)
next
  case (Inr saved)
  with row obtain r where
    "format_csv_row tools (fst saved) keys_to_save (metadata_keys sample) = Inr r"
    by auto
  with Inr distinct show ?thesis
    by (cases saved) (auto simp: save_tile_step_def Let_def lines_of_write_line)
qed

text \<open>
  The loop over any indices within the locations, when the formatting helpers return
  for the tiles they are called on.
\<close>

lemma save_tiles_records:
  fixes tools :: "('img, 'tile, 'mask) slide_tools"
    and loaded output_dir rel_slide_dir image_tiles occupancies tile_locations
  defines "attempt \<equiv> try_save_tile tools loaded output_dir rel_slide_dir
                         image_tiles occupancies tile_locations"
  assumes range: "\<forall>i \<in> set indices. i < length tile_locations"
    and distinct: "dataset_csv \<noteq> failed_csv"
    and handler: "\<forall>i \<in> set indices. isl (attempt i) \<longrightarrow>
                    (\<exists>d t. get_tile_descriptor tools (tile_locations ! i) = Inr d
                         \<and> get_tile_id tools (slide_id sample) (tile_locations ! i) = Inr t)"
    and row: "\<forall>i \<in> set indices. \<not> isl (attempt i) \<longrightarrow>
                (\<exists>r. format_csv_row tools (fst (projr (attempt i))) keys_to_save
                       (metadata_keys sample) = Inr r)"
  shows "\<exists>st'. save_tiles tools loaded sample output_dir rel_slide_dir dataset_csv failed_csv
                 image_tiles occupancies tile_locations indices st = (None, st')
          \<and> lines_of (lw st') dataset_csv = lines_of (lw st) dataset_csv @
               map (\<lambda>i. projr (format_csv_row tools (fst (projr (attempt i))) keys_to_save
                                   (metadata_keys sample)))
                 (filter (\<lambda>i. \<not> isl (attempt i)) indices)
          \<and> lines_of (lw st') failed_csv = lines_of (lw st) failed_csv @
               map (\<lambda>i. projr (get_tile_descriptor tools (tile_locations ! i)))
                 (filter (\<lambda>i. isl (attempt i)) indices)
          \<and> n_failed_tiles st' = n_failed_tiles st + length (filter (\<lambda>i. isl (attempt i)) indices)
          \<and> tile_info_list st' = tile_info_list st @
               map (\<lambda>i. fst (projr (attempt i))) (filter (\<lambda>i. \<not> isl (attempt i)) indices)
          \<and> set (trace (lw st)) \<subseteq> set (trace (lw st'))"
  using range handler row
proof (induction indices arbitrary: st)
  case Nil
  show ?case by simp
next
  case (Cons i indices)
  from Cons.prems have i: "i < length tile_locations" by simp
  from Cons.prems have h: "isl (attempt i) \<Longrightarrow>
      \<exists>d t. get_tile_descriptor tools (tile_locations ! i) = Inr d
           \<and> get_tile_id tools (slide_id sample) (tile_locations ! i) = Inr t"
    by simp
  from Cons.prems have r: "\<not> isl (attempt i) \<Longrightarrow>
      \<exists>r. format_csv_row tools (fst (projr (attempt i))) keys_to_save
             (metadata_keys sample) = Inr r"
    by simp
  from save_tile_step_records [OF i distinct h [unfolded attempt_def] r [unfolded attempt_def],
         of st]
  obtain st1 where
    step: "save_tile_step tools loaded sample output_dir rel_slide_dir dataset_csv failed_csv
             image_tiles occupancies tile_locations i st = (None, st1)"
    and d1: "lines_of (lw st1) dataset_csv = lines_of (lw st) dataset_csv @
               (if isl (attempt i) then []
                else [projr (format_csv_row tools (fst (projr (attempt i))) keys_to_save
                               (metadata_keys sample))])"
    and f1: "lines_of (lw st1) failed_csv = lines_of (lw st) failed_csv @
               (if isl (attempt i)
                then [projr (get_tile_descriptor tools (tile_locations ! i))] else [])"
    and n1: "n_failed_tiles st1 = n_failed_tiles st + (if isl (attempt i) then 1 else 0)"
    and t1: "tile_info_list st1 = tile_info_list st @
               (if isl (attempt i) then [] else [fst (projr (attempt i))])"
    and g1: "set (trace (lw st)) \<subseteq> set (trace (lw st1))"
    unfolding attempt_def by blast
  from Cons.prems have
    "\<forall>j \<in> set indices. j < length tile_locations"
    "\<forall>j \<in> set indices. isl (attempt j) \<longrightarrow>
       (\<exists>d t. get_tile_descriptor tools (tile_locations ! j) = Inr d
            \<and> get_tile_id tools (slide_id sample) (tile_locations ! j) = Inr t)"
    "\<forall>j \<in> set indices. \<not> isl (attempt j) \<longrightarrow>
       (\<exists>r. format_csv_row tools (fst (projr (attempt j))) keys_to_save
              (metadata_keys sample) = Inr r)"
    by simp_all
  from Cons.IH [OF this, of st1] obtain st' where
    "save_tiles tools loaded sample output_dir rel_slide_dir dataset_csv failed_csv
       image_tiles occupancies tile_locations indices st1 = (None, st')"
    and "lines_of (lw st') dataset_csv = lines_of (lw st1) dataset_csv @
           map (\<lambda>i. projr (format_csv_row tools (fst (projr (attempt i))) keys_to_save
                               (metadata_keys sample)))
             (filter (\<lambda>i. \<not> isl (attempt i)) indices)"
    and "lines_of (lw st') failed_csv = lines_of (lw st1) failed_csv @
           map (\<lambda>i. projr (get_tile_descriptor tools (tile_locations ! i)))
             (filter (\<lambda>i. isl (attempt i)) indices)"
    and "n_failed_tiles st' = n_failed_tiles st1 + length (filter (\<lambda>i. isl (attempt i)) indices)"
    and "tile_info_list st' = tile_info_list st1 @
           map (\<lambda>i. fst (projr (attempt i))) (filter (\<lambda>i. \<not> isl (attempt i)) indices)"
    and "set (trace (lw st1)) \<subseteq> set (trace (lw st'))"
    by blast
  with step d1 f1 n1 t1 g1 show ?case
    by (intro exI [of _ st']) auto
qed

section \<open>Properties of the slide processor\<close>

text \<open>The state in which loading starts: directories made, both logs opened.\<close>

lemma process_one_slide_fresh:
  assumes "\<not> is_already_processed tools (files w) (path_join output_dir (slide_id sample))"
    and "load_wsi tools sample level margin foreground_threshold = Inr loaded"
  shows "process_one_slide tools sample level margin tile_size foreground_threshold
           occupancy_threshold output_dir thumbnail_dir tile_progress w
         = tile_and_save tools sample loaded tile_size occupancy_threshold output_dir
             thumbnail_dir (path_join output_dir (slide_id sample))
             (emit (Slide_loaded (image_file sample))
               (emit (Log_info ''Loading slide'')
                 (open_w (path_join (path_join output_dir (slide_id sample)) ''failed_tiles.csv'')
                    ''tile_id''
                   (open_w (path_join (path_join output_dir (slide_id sample)) ''dataset.csv'')
                      (csv_header sample)
                     (mkdir (path_join output_dir (slide_id sample))
                       (emit (Log_info ''Slide dir'')
                         (mkdir thumbnail_dir (mkdir output_dir w))))))))"
  using assms by (simp add: process_one_slide_def Let_def)

text \<open>
  Tiling and saving, once the thumbnails are saved and the tiles generated: the slide
  completes when the formatting helpers return and the overlay is drawn.
\<close>

lemma tile_and_save_records:
  fixes tools :: "('img, 'tile, 'mask) slide_tools"
    and sample loaded output_dir image_tiles occupancies rel_tile_locations
  defines "tile_locations \<equiv> map (to_level0 (scale loaded) (origin loaded)) rel_tile_locations"
  defines "attempt \<equiv> try_save_tile tools loaded output_dir (slide_id sample)
                         image_tiles occupancies tile_locations"
  defines "saved \<equiv> filter (\<lambda>i. \<not> isl (attempt i)) [0..<length image_tiles]"
  defines "failed \<equiv> filter (\<lambda>i. isl (attempt i)) [0..<length image_tiles]"
  assumes thumb1: "save_thumbnail tools (image_file sample)
                     (thumbnail_path thumbnail_dir sample ''_original.png'') = Inr u1"
    and thumb2: "plt_savefig tools (roi_image loaded)
                   (thumbnail_path thumbnail_dir sample ''_roi.png'') = Inr u2"
    and tiled: "generate_tiles tools (roi_image loaded) tile_size
                  (roi_foreground_threshold loaded) occupancy_threshold
                = (logs, Inr (image_tiles, rel_tile_locations, occupancies, n_discarded))"
    and handler: "\<forall>i \<in> set failed.
                    \<exists>d t. get_tile_descriptor tools (tile_locations ! i) = Inr d
                         \<and> get_tile_id tools (slide_id sample) (tile_locations ! i) = Inr t"
    and row: "\<forall>i \<in> set saved.
                \<exists>r. format_csv_row tools (fst (projr (attempt i))) keys_to_save
                       (metadata_keys sample) = Inr r"
    and overlay: "visualize_tile_locations tools loaded
                    (thumbnail_path thumbnail_dir sample ''_roi_tiles.png'')
                    (map (\<lambda>i. fst (projr (attempt i))) saved) tile_size (origin loaded)
                  = Inr u3"
  shows "\<exists>w'. tile_and_save tools sample loaded tile_size occupancy_threshold output_dir
                thumbnail_dir d w = (Inr d, w')
          \<and> lines_of w' (path_join d ''dataset.csv'')
              = lines_of w (path_join d ''dataset.csv'') @
                map (\<lambda>i. projr (format_csv_row tools (fst (projr (attempt i))) keys_to_save
                                    (metadata_keys sample))) saved
          \<and> lines_of w' (path_join d ''failed_tiles.csv'')
              = lines_of w (path_join d ''failed_tiles.csv'') @
                map (\<lambda>i. projr (get_tile_descriptor tools (tile_locations ! i))) failed
          \<and> (failed \<noteq> [] \<longrightarrow> Slide_incomplete (length failed) \<in> set (trace w'))
          \<and> set logs \<subseteq> set (trace w')"
proof -
  let ?w4 = "emits [Tiles_generated (length image_tiles), Log_info ''tiles found'',
                    Log_info ''Saving tiles for slide'']
               (emits logs
                 (emits [Thumbnail_saved (thumbnail_path thumbnail_dir sample ''_roi.png''),
                         Log_info ''Saving thumbnail'', Log_info ''Tiling slide'']
                   (emit (Thumbnail_saved (thumbnail_path thumbnail_dir sample ''_original.png''))
                      w)))"
  let ?st = "\<lparr>lw = ?w4, n_failed_tiles = 0, tile_info_list = []\<rparr>"
  from generate_tiles_lengths [OF tiled]
  have range: "\<forall>i \<in> set [0..<length image_tiles]. i < length tile_locations"
    by (simp add: tile_locations_def)
  have h: "\<forall>i \<in> set [0..<length image_tiles]. isl (attempt i) \<longrightarrow>
             (\<exists>d t. get_tile_descriptor tools (tile_locations ! i) = Inr d
                  \<and> get_tile_id tools (slide_id sample) (tile_locations ! i) = Inr t)"
    using handler by (simp add: failed_def)
  have r: "\<forall>i \<in> set [0..<length image_tiles]. \<not> isl (attempt i) \<longrightarrow>
             (\<exists>r. format_csv_row tools (fst (projr (attempt i))) keys_to_save
                    (metadata_keys sample) = Inr r)"
    using row by (simp add: saved_def)
  from save_tiles_records [OF range csv_paths_distinct h [unfolded attempt_def]
         r [unfolded attempt_def], of d ?st]
  obtain st' where
    loop: "save_tiles tools loaded sample output_dir (slide_id sample)
             (path_join d ''dataset.csv'') (path_join d ''failed_tiles.csv'')
             image_tiles occupancies tile_locations [0..<length image_tiles] ?st = (None, st')"
    and rows: "lines_of (lw st') (path_join d ''dataset.csv'')
           = lines_of (lw ?st) (path_join d ''dataset.csv'') @
             map (\<lambda>i. projr (format_csv_row tools (fst (projr (attempt i))) keys_to_save
                                 (metadata_keys sample))) saved"
    and fails: "lines_of (lw st') (path_join d ''failed_tiles.csv'')
           = lines_of (lw ?st) (path_join d ''failed_tiles.csv'') @
             map (\<lambda>i. projr (get_tile_descriptor tools (tile_locations ! i))) failed"
    and count: "n_failed_tiles st' = n_failed_tiles ?st + length failed"
    and infos: "tile_info_list st' = tile_info_list ?st @ map (\<lambda>i. fst (projr (attempt i))) saved"
    and grows: "set (trace (lw ?st)) \<subseteq> set (trace (lw st'))"
    unfolding attempt_def saved_def failed_def by blast
  from infos overlay have
    vis: "visualize_tile_locations tools loaded
            (thumbnail_path thumbnail_dir sample ''_roi_tiles.png'') (tile_info_list st')
            tile_size (origin loaded) = Inr u3"
    by simp
  show ?thesis
    unfolding tile_and_save_def Let_def
    using rows fails count grows loop [unfolded tile_locations_def]
    by (simp add: thumb1 thumb2 tiled vis) auto
qed

text \<open>
  Claim C1.  Take a slide that \<^verbatim>\<open>process_one_slide\<close> loads, whose thumbnails are saved
  and for which \<^verbatim>\<open>generate_tiles\<close> returns.  Call a surviving tile failed when its
  \<^verbatim>\<open>try\<close> block (lines 233 and 234) raises, and saved otherwise.  Provided
  \<^verbatim>\<open>get_tile_descriptor\<close> and \<^verbatim>\<open>get_tile_id\<close> return for the failed tiles,
  \<^verbatim>\<open>format_csv_row\<close> returns for the saved ones and the overlay is drawn,
  \<^verbatim>\<open>process_one_slide\<close> returns the slide's directory whatever tiles fail;
  \<^verbatim>\<open>dataset.csv\<close> is the header and one row for each saved tile,
  \<^verbatim>\<open>failed_tiles.csv\<close> is the header and one descriptor for each failed tile, both in
  grid order; the final warning reports the failure counter, which is the number of
  failed tiles; every tile is saved or failed and none is both.
\<close>

theorem process_one_slide_one_record_per_tile:
  fixes tools :: "('img, 'tile, 'mask) slide_tools"
    and sample loaded output_dir image_tiles occupancies rel_tile_locations
  defines "slide_dir \<equiv> path_join output_dir (slide_id sample)"
  defines "tile_locations \<equiv> map (to_level0 (scale loaded) (origin loaded)) rel_tile_locations"
  defines "attempt \<equiv> try_save_tile tools loaded output_dir (slide_id sample)
                         image_tiles occupancies tile_locations"
  defines "saved \<equiv> filter (\<lambda>i. \<not> isl (attempt i)) [0..<length image_tiles]"
  defines "failed \<equiv> filter (\<lambda>i. isl (attempt i)) [0..<length image_tiles]"
  assumes fresh: "\<not> is_already_processed tools (files w) slide_dir"
    and loaded: "load_wsi tools sample level margin foreground_threshold = Inr loaded"
    and thumb1: "save_thumbnail tools (image_file sample)
                   (thumbnail_path thumbnail_dir sample ''_original.png'') = Inr u1"
    and thumb2: "plt_savefig tools (roi_image loaded)
                   (thumbnail_path thumbnail_dir sample ''_roi.png'') = Inr u2"
    and tiled: "generate_tiles tools (roi_image loaded) tile_size
                  (roi_foreground_threshold loaded) occupancy_threshold
                = (logs, Inr (image_tiles, rel_tile_locations, occupancies, n_discarded))"
    and handler: "\<forall>i \<in> set failed.
                    \<exists>d t. get_tile_descriptor tools (tile_locations ! i) = Inr d
                         \<and> get_tile_id tools (slide_id sample) (tile_locations ! i) = Inr t"
    and row: "\<forall>i \<in> set saved.
                \<exists>r. format_csv_row tools (fst (projr (attempt i))) keys_to_save
                       (metadata_keys sample) = Inr r"
    and overlay: "visualize_tile_locations tools loaded
                    (thumbnail_path thumbnail_dir sample ''_roi_tiles.png'')
                    (map (\<lambda>i. fst (projr (attempt i))) saved) tile_size (origin loaded)
                  = Inr u3"
  shows "\<exists>w'. process_one_slide tools sample level margin tile_size foreground_threshold
                occupancy_threshold output_dir thumbnail_dir tile_progress w
              = (Inr slide_dir, w')
          \<and> lines_of w' (path_join slide_dir ''dataset.csv'')
              = csv_header sample #
                map (\<lambda>i. projr (format_csv_row tools (fst (projr (attempt i))) keys_to_save
                                    (metadata_keys sample))) saved
          \<and> lines_of w' (path_join slide_dir ''failed_tiles.csv'')
              = ''tile_id'' #
                map (\<lambda>i. projr (get_tile_descriptor tools (tile_locations ! i))) failed
          \<and> (failed \<noteq> [] \<longrightarrow> Slide_incomplete (length failed) \<in> set (trace w'))
          \<and> length saved + length failed = length image_tiles
          \<and> set saved \<inter> set failed = {}"
proof -
  have split: "length saved + length failed = length image_tiles"
    unfolding saved_def failed_def
    using sum_length_filter_compl [of "\<lambda>i. \<not> isl (attempt i)" "[0..<length image_tiles]"]
    by simp
  have apart: "set saved \<inter> set failed = {}"
    unfolding saved_def failed_def by auto
  let ?w0 = "emit (Slide_loaded (image_file sample))
               (emit (Log_info ''Loading slide'')
                 (open_w (path_join slide_dir ''failed_tiles.csv'') ''tile_id''
                   (open_w (path_join slide_dir ''dataset.csv'') (csv_header sample)
                     (mkdir slide_dir
                       (emit (Log_info ''Slide dir'')
                         (mkdir thumbnail_dir (mkdir output_dir w)))))))"
  have start: "lines_of ?w0 (path_join slide_dir ''dataset.csv'') = [csv_header sample]"
      "lines_of ?w0 (path_join slide_dir ''failed_tiles.csv'') = [''tile_id'']"
    using csv_paths_distinct [of slide_dir] by (simp_all add: lines_of_open_w)
  from tile_and_save_records [OF thumb1 thumb2 tiled
         handler [unfolded failed_def attempt_def tile_locations_def]
         row [unfolded saved_def attempt_def tile_locations_def]
         overlay [unfolded saved_def attempt_def tile_locations_def], of slide_dir ?w0]
  obtain w' where
    "tile_and_save tools sample loaded tile_size occupancy_threshold output_dir
       thumbnail_dir slide_dir ?w0 = (Inr slide_dir, w')"
    and "lines_of w' (path_join slide_dir ''dataset.csv'')
           = lines_of ?w0 (path_join slide_dir ''dataset.csv'') @
             map (\<lambda>i. projr (format_csv_row tools (fst (projr (attempt i))) keys_to_save
                                 (metadata_keys sample))) saved"
    and "lines_of w' (path_join slide_dir ''failed_tiles.csv'')
           = lines_of ?w0 (path_join slide_dir ''failed_tiles.csv'') @
             map (\<lambda>i. projr (get_tile_descriptor tools (tile_locations ! i))) failed"
    and "failed \<noteq> [] \<longrightarrow> Slide_incomplete (length failed) \<in> set (trace w')"
    unfolding saved_def failed_def attempt_def tile_locations_def by blast
  with split apart start show ?thesis
    unfolding process_one_slide_fresh [OF fresh [unfolded slide_dir_def] loaded]
    unfolding slide_dir_def [symmetric]
    by (intro exI [of _ w']) simp
qed

text \<open>Of the two surviving tiles 50 and 77 the first is saved and the second fails.\<close>

theorem process_one_slide_one_record_per_tile_witness:
  "generate_tiles (demo_tools [50, 3, 100, 77]) (roi_image (demo_loaded [50, 3, 100, 77])) 256
     (roi_foreground_threshold (demo_loaded [50, 3, 100, 77])) (1 / 10)
     = ([Log_info ''image_tiles.shape'', Log_info ''Tiled'',
         Log_info ''Percentage tiles discarded'',
         Log_info ''Percentage tiles discarded after filtering empty tiles'',
         Log_info ''Before filtering'', Log_info ''After filtering''],
        Inr ([50, 77], [(0, 0), (0, 768)], [1 / 2, 77 / 100], 2))
   \<and> (\<exists>w'. process_one_slide (demo_tools [50, 3, 100, 77]) demo_sample 0 0 256 None (1 / 10)
               ''out'' ''thumbs'' True empty_world = (Inr ''out/s1'', w')
          \<and> lines_of w' ''out/s1/dataset.csv''
              = [''slide_id,tile_id,image,label,tile_y,tile_x,occupancy'',
                 '',2000x_1000y,s1/2000x_1000y.png,,,,'']
          \<and> lines_of w' ''out/s1/failed_tiles.csv'' = [''tile_id'', ''3536x_1000y'']
          \<and> Slide_incomplete 1 \<in> set (trace w'))"
proof -
  have fresh: "\<not> is_already_processed (demo_tools [50, 3, 100, 77]) (files empty_world)
                   (path_join ''out'' (slide_id demo_sample))"
    by (simp add: demo_simps2)
  have loaded: "load_wsi (demo_tools [50, 3, 100, 77]) demo_sample 0 0 None
                  = Inr (demo_loaded [50, 3, 100, 77])"
    by (simp add: demo_simps2)
  have thumb1: "save_thumbnail (demo_tools [50, 3, 100, 77]) (image_file demo_sample)
                  (thumbnail_path ''thumbs'' demo_sample ''_original.png'') = Inr ()"
    by (simp add: demo_simps2)
  have thumb2: "plt_savefig (demo_tools [50, 3, 100, 77]) (roi_image (demo_loaded [50, 3, 100, 77]))
                  (thumbnail_path ''thumbs'' demo_sample ''_roi.png'') = Inr ()"
    by (simp add: demo_simps2)
  have tiled: "generate_tiles (demo_tools [50, 3, 100, 77])
                 (roi_image (demo_loaded [50, 3, 100, 77])) 256
                 (roi_foreground_threshold (demo_loaded [50, 3, 100, 77])) (1 / 10)
     = ([Log_info ''image_tiles.shape'', Log_info ''Tiled'',
         Log_info ''Percentage tiles discarded'',
         Log_info ''Percentage tiles discarded after filtering empty tiles'',
         Log_info ''Before filtering'', Log_info ''After filtering''],
        Inr ([50, 77], [(0, 0), (0, 768)], [1 / 2, 77 / 100], 2))"
    by (simp add: demo_simps2)
  note run = process_one_slide_one_record_per_tile [OF fresh loaded thumb1 thumb2 tiled,
               where tile_progress = True]
  have "\<exists>w'. process_one_slide (demo_tools [50, 3, 100, 77]) demo_sample 0 0 256 None (1 / 10)
               ''out'' ''thumbs'' True empty_world = (Inr ''out/s1'', w')
          \<and> lines_of w' ''out/s1/dataset.csv''
              = [''slide_id,tile_id,image,label,tile_y,tile_x,occupancy'',
                 '',2000x_1000y,s1/2000x_1000y.png,,,,'']
          \<and> lines_of w' ''out/s1/failed_tiles.csv'' = [''tile_id'', ''3536x_1000y'']
          \<and> Slide_incomplete 1 \<in> set (trace w')"
    using run by (simp add: demo_simps2)
  with tiled show ?thesis by simp
qed

text \<open>
  Claim C3.  If \<^verbatim>\<open>is_already_processed\<close> holds for the slide's output directory,
  \<^verbatim>\<open>process_one_slide\<close> returns that directory at once: it makes the two root
  directories and logs two lines, loads nothing, tiles nothing, and leaves every file as
  it was.
\<close>

theorem process_one_slide_skips_processed:
  assumes "is_already_processed tools (files w) (path_join output_dir (slide_id sample))"
  shows "\<exists>w'. process_one_slide tools sample level margin tile_size foreground_threshold
                occupancy_threshold output_dir thumbnail_dir tile_progress w
              = (Inr (path_join output_dir (slide_id sample)), w')
          \<and> files w' = files w
          \<and> trace w' = trace w @ [Mkdir output_dir, Mkdir thumbnail_dir, Log_info ''Slide dir'',
                                   Log_info ''Skipping - already processed'']"
  using assms by (simp add: process_one_slide_def Let_def)

theorem process_one_slide_skips_processed_witness:
  "is_already_processed (demo_tools [50]) (files processed_world)
     (path_join ''out'' (slide_id demo_sample))
   \<and> (\<exists>w'. process_one_slide (demo_tools [50]) demo_sample 0 0 256 None (1 / 10)
               ''out'' ''thumbs'' True processed_world = (Inr ''out/s1'', w')
          \<and> files w' = files processed_world
          \<and> trace w' = [Mkdir ''out'', Mkdir ''thumbs'', Log_info ''Slide dir'',
                         Log_info ''Skipping - already processed''])"
proof -
  have seen: "is_already_processed (demo_tools [50]) (files processed_world)
                (path_join ''out'' (slide_id demo_sample))"
    by (simp add: demo_simps2)
  from process_one_slide_skips_processed [OF seen, where level = 0 and margin = 0 and tile_size = 256
         and foreground_threshold = None and occupancy_threshold = "1 / 10"
         and thumbnail_dir = "''thumbs''" and tile_progress = True] seen
  show ?thesis
    by (simp add: demo_sample_def path_join_def processed_world_def)
qed

text \<open>
  Claim C4, amended.  Neither thumbnail is saved inside a \<^verbatim>\<open>try\<close>: when saving the
  thumbnail of the slide or the figure of the region raises, the exception leaves
  \<^verbatim>\<open>process_one_slide\<close>, no tiling takes place, and the two CSV logs are left with
  their header lines.
\<close>

theorem process_one_slide_thumbnail_failure_aborts:
  assumes fresh: "\<not> is_already_processed tools (files w)
                      (path_join output_dir (slide_id sample))"
    and loaded: "load_wsi tools sample level margin foreground_threshold = Inr loaded"
    and failure:
      "save_thumbnail tools (image_file sample)
         (thumbnail_path thumbnail_dir sample ''_original.png'') = Inl e
       \<or> (\<exists>u. save_thumbnail tools (image_file sample)
                 (thumbnail_path thumbnail_dir sample ''_original.png'') = Inr u
              \<and> plt_savefig tools (roi_image loaded)
                   (thumbnail_path thumbnail_dir sample ''_roi.png'') = Inl e)"
  shows "\<exists>w'. process_one_slide tools sample level margin tile_size foreground_threshold
                occupancy_threshold output_dir thumbnail_dir tile_progress w = (Inl e, w')
          \<and> lines_of w' (path_join (path_join output_dir (slide_id sample)) ''dataset.csv'')
              = [csv_header sample]
          \<and> lines_of w' (path_join (path_join output_dir (slide_id sample)) ''failed_tiles.csv'')
              = [''tile_id'']
          \<and> (trace w' = trace w @
                [Mkdir output_dir, Mkdir thumbnail_dir, Log_info ''Slide dir'',
                 Mkdir (path_join output_dir (slide_id sample)), Log_info ''Loading slide'',
                 Slide_loaded (image_file sample)]
             \<or> trace w' = trace w @
                [Mkdir output_dir, Mkdir thumbnail_dir, Log_info ''Slide dir'',
                 Mkdir (path_join output_dir (slide_id sample)), Log_info ''Loading slide'',
                 Slide_loaded (image_file sample),
                 Thumbnail_saved (thumbnail_path thumbnail_dir sample ''_original.png'')])"
  using failure csv_paths_distinct [of "path_join output_dir (slide_id sample)"]
  unfolding process_one_slide_fresh [OF fresh loaded]
  by (auto simp: tile_and_save_def Let_def lines_of_open_w)

theorem process_one_slide_thumbnail_failure_aborts_witness:
  "\<not> is_already_processed (demo_tools_no_thumbnail [50]) (files empty_world)
       (path_join ''out'' (slide_id demo_sample))
   \<and> load_wsi (demo_tools_no_thumbnail [50]) demo_sample 0 0 None = Inr (demo_loaded [50])
   \<and> save_thumbnail (demo_tools_no_thumbnail [50]) (image_file demo_sample)
        (thumbnail_path ''thumbs'' demo_sample ''_original.png'')
      = Inl (ExternalError ''cannot write thumbnail'')
   \<and> (\<exists>w'. process_one_slide (demo_tools_no_thumbnail [50]) demo_sample 0 0 256 None (1 / 10)
               ''out'' ''thumbs'' True empty_world
             = (Inl (ExternalError ''cannot write thumbnail''), w')
          \<and> lines_of w' ''out/s1/dataset.csv''
              = [''slide_id,tile_id,image,label,tile_y,tile_x,occupancy'']
          \<and> lines_of w' ''out/s1/failed_tiles.csv'' = [''tile_id'']
          \<and> trace w' = [Mkdir ''out'', Mkdir ''thumbs'', Log_info ''Slide dir'', Mkdir ''out/s1'',
                         Log_info ''Loading slide'', Slide_loaded ''wsi/s1.svs''])"
proof -
  have fresh: "\<not> is_already_processed (demo_tools_no_thumbnail [50]) (files empty_world)
                   (path_join ''out'' (slide_id demo_sample))"
    by (simp add: demo_simps2)
  have loaded: "load_wsi (demo_tools_no_thumbnail [50]) demo_sample 0 0 None
                  = Inr (demo_loaded [50])"
    by (simp add: demo_simps2)
  have thumb: "save_thumbnail (demo_tools_no_thumbnail [50]) (image_file demo_sample)
                 (thumbnail_path ''thumbs'' demo_sample ''_original.png'')
               = Inl (ExternalError ''cannot write thumbnail'')"
    by (simp add: demo_simps2)
  from process_one_slide_thumbnail_failure_aborts [OF fresh loaded disjI1, OF thumb,
         where tile_size = 256 and occupancy_threshold = "1 / 10" and tile_progress = True]
    fresh loaded thumb
  show ?thesis
    by (simp add: demo_simps2)
qed

text \<open>
  The claim as stated, that such a failure is only logged and tiling goes on, fails when
  the figure of the region cannot be saved: the slide ends with that exception right
  after the first thumbnail.
\<close>

theorem process_one_slide_figure_failure_counterexample:
  "plt_savefig (demo_tools_no_figure [50]) (roi_image (demo_loaded [50]))
     (thumbnail_path ''thumbs'' demo_sample ''_roi.png'')
     = Inl (ExternalError ''cannot write figure'')
   \<and> fst (process_one_slide (demo_tools_no_figure [50]) demo_sample 0 0 256 None (1 / 10)
          ''out'' ''thumbs'' True empty_world)
     = Inl (ExternalError ''cannot write figure'')
   \<and> trace (snd (process_one_slide (demo_tools_no_figure [50]) demo_sample 0 0 256 None (1 / 10)
                  ''out'' ''thumbs'' True empty_world))
     = [Mkdir ''out'', Mkdir ''thumbs'', Log_info ''Slide dir'', Mkdir ''out/s1'',
        Log_info ''Loading slide'', Slide_loaded ''wsi/s1.svs'',
        Thumbnail_saved ''thumbs/s1.svs_original.png'']"
  by (simp add: demo_simps2)

text \<open>
  When \<^verbatim>\<open>generate_tiles\<close> returns without a single surviving tile, it has logged the
  warning and the slide completes with the two header lines, provided the slide loads,
  the thumbnails are saved and the overlay is drawn.
\<close>

lemma process_one_slide_all_filtered:
  assumes fresh: "\<not> is_already_processed tools (files w)
                      (path_join output_dir (slide_id sample))"
    and loaded: "load_wsi tools sample level margin foreground_threshold = Inr loaded"
    and thumb1: "save_thumbnail tools (image_file sample)
                   (thumbnail_path thumbnail_dir sample ''_original.png'') = Inr u1"
    and thumb2: "plt_savefig tools (roi_image loaded)
                   (thumbnail_path thumbnail_dir sample ''_roi.png'') = Inr u2"
    and tiled: "generate_tiles tools (roi_image loaded) tile_size
                  (roi_foreground_threshold loaded) occupancy_threshold
                = (logs, Inr ([], rel_tile_locations, occupancies, n_discarded))"
    and overlay: "visualize_tile_locations tools loaded
                    (thumbnail_path thumbnail_dir sample ''_roi_tiles.png'') [] tile_size
                    (origin loaded) = Inr u3"
  shows "\<exists>w'. process_one_slide tools sample level margin tile_size foreground_threshold
                occupancy_threshold output_dir thumbnail_dir tile_progress w
              = (Inr (path_join output_dir (slide_id sample)), w')
          \<and> lines_of w' (path_join (path_join output_dir (slide_id sample)) ''dataset.csv'')
              = [csv_header sample]
          \<and> lines_of w' (path_join (path_join output_dir (slide_id sample)) ''failed_tiles.csv'')
              = [''tile_id'']
          \<and> Log_warn ''No tiles selected'' \<in> set (trace w')"
proof -
  from generate_tiles_lengths [OF tiled] have none: "rel_tile_locations = []" by simp
  from generate_tiles_warns [OF tiled [unfolded none]]
  have warn: "Log_warn ''No tiles selected'' \<in> set logs" .
  show ?thesis
    unfolding process_one_slide_fresh [OF fresh loaded]
    using warn csv_paths_distinct [of "path_join output_dir (slide_id sample)"]
    by (simp add: tile_and_save_def Let_def thumb1 thumb2 tiled overlay lines_of_open_w)
qed


section \<open>Properties of the level-0 coordinates\<close>

text \<open>Cutting off moves towards zero, by less than one.\<close>

lemma div_pow2_floor:
  fixes a :: int
  assumes "0 \<le> a"
  shows "real_of_int (a div 2 ^ k) \<le> real_of_int a / 2 ^ k
         \<and> real_of_int a / 2 ^ k < real_of_int (a div 2 ^ k) + 1
         \<and> 0 \<le> real_of_int (a div 2 ^ k)"
proof -
  have "a div 2 ^ k = \<lfloor>real_of_int a / real_of_int (2 ^ k)\<rfloor>"
    by (simp only: floor_divide_of_int_eq)
  then have floor: "a div 2 ^ k = \<lfloor>real_of_int a / 2 ^ k\<rfloor>"
    by simp
  have "0 \<le> a div 2 ^ k"
    using assms by (simp add: pos_imp_zdiv_nonneg_iff)
  then have "0 \<le> real_of_int (a div 2 ^ k)" by simp
  moreover have "real_of_int \<lfloor>real_of_int a / 2 ^ k\<rfloor> \<le> real_of_int a / 2 ^ k"
    by (rule of_int_floor_le)
  moreover have "real_of_int a / 2 ^ k < real_of_int \<lfloor>real_of_int a / 2 ^ k\<rfloor> + 1"
    by linarith
  ultimately show ?thesis
    unfolding floor by simp
qed

lemma cut_towards_zero_bounds:
  "\<bar>real_of_int (cut_towards_zero m e) - f64_value m e\<bar> < 1
   \<and> \<bar>real_of_int (cut_towards_zero m e)\<bar> \<le> \<bar>f64_value m e\<bar>"
proof (cases "0 \<le> e")
  case True
  then show ?thesis
    by (simp add: cut_towards_zero_def f64_value_def)
next
  case False
  show ?thesis
  proof (cases "0 \<le> m")
    case True
    with False div_pow2_floor [OF True, of "nat (- e)"] show ?thesis
      by (simp add: cut_towards_zero_def f64_value_def)
  next
    case neg: False
    then have "0 \<le> - m" by simp
    from div_pow2_floor [OF this, of "nat (- e)"] False neg show ?thesis
      by (simp add: cut_towards_zero_def f64_value_def)
  qed
qed

lemma astype_int_bounds:
  assumes "\<bar>f64_value m e\<bar> < 2 ^ 63"
  shows "\<bar>real_of_int (astype_int (Finite m e)) - f64_value m e\<bar> < 1
         \<and> \<bar>real_of_int (astype_int (Finite m e))\<bar> \<le> \<bar>f64_value m e\<bar>"
proof -
  from cut_towards_zero_bounds [of m e] assms
  have "\<bar>real_of_int (cut_towards_zero m e)\<bar> < 2 ^ 63" by linarith
  then have "\<bar>cut_towards_zero m e\<bar> < 2 ^ 63"
    by (metis of_int_abs of_int_less_numeral_power_cancel_iff)
  then have "- (2 ^ 63) \<le> cut_towards_zero m e" "cut_towards_zero m e < 2 ^ 63"
    by linarith+
  then have "int64_or_min (cut_towards_zero m e) = cut_towards_zero m e"
    unfolding int64_or_min_def by (rule_tac if_P) (rule conjI)
  with cut_towards_zero_bounds [of m e] show ?thesis by simp
qed

text \<open>
  Claim C2, amended.  The stored level-0 coordinate is the float64 value computed for
  \<open>scale * relative + origin\<close> cut off towards zero, whenever that value is finite and
  below \<open>2 ^ 63\<close> in absolute value: it differs from the float64 value by less than one
  and is never larger in absolute value.
\<close>

theorem to_level0_truncates:
  assumes row: "level0_float sc (fst orig) (fst rel) = Finite my ey"
    and col: "level0_float sc (snd orig) (snd rel) = Finite mx ex"
    and fits: "\<bar>f64_value my ey\<bar> < 2 ^ 63" "\<bar>f64_value mx ex\<bar> < 2 ^ 63"
  shows "\<bar>real_of_int (fst (to_level0 sc orig rel)) - f64_value my ey\<bar> < 1
         \<and> \<bar>real_of_int (fst (to_level0 sc orig rel))\<bar> \<le> \<bar>f64_value my ey\<bar>
         \<and> \<bar>real_of_int (snd (to_level0 sc orig rel)) - f64_value mx ex\<bar> < 1
         \<and> \<bar>real_of_int (snd (to_level0 sc orig rel))\<bar> \<le> \<bar>f64_value mx ex\<bar>"
  using astype_int_bounds [OF fits(1)] astype_int_bounds [OF fits(2)]
  by (simp add: to_level0_def row col)

text \<open>The scale 1.75 is \<open>7 * 2 ^ - 2\<close>; the origin (-3, 0), the location (1, 1).\<close>

theorem to_level0_truncates_witness:
  "level0_float (Finite 7 (- 2)) (fst (- 3, 0)) (fst (1, 1)) = Finite (- 5) (- 2)
   \<and> level0_float (Finite 7 (- 2)) (snd (- 3, 0 :: int)) (snd (1, 1 :: int)) = Finite 7 (- 2)
   \<and> \<bar>f64_value (- 5) (- 2)\<bar> < 2 ^ 63 \<and> \<bar>f64_value 7 (- 2)\<bar> < 2 ^ 63
   \<and> to_level0 (Finite 7 (- 2)) (- 3, 0) (1, 1) = (- 1, 1)
   \<and> \<bar>real_of_int (- 1) - f64_value (- 5) (- 2)\<bar> < 1
   \<and> \<bar>real_of_int (- 1)\<bar> \<le> \<bar>f64_value (- 5) (- 2)\<bar>
   \<and> \<bar>real_of_int 1 - f64_value 7 (- 2)\<bar> < 1
   \<and> \<bar>real_of_int 1\<bar> \<le> \<bar>f64_value 7 (- 2)\<bar>"
proof -
  have row: "level0_float (Finite 7 (- 2)) (fst (- 3, 0)) (fst (1, 1)) = Finite (- 5) (- 2)"
    by (simp add: f64_simps)
  have col: "level0_float (Finite 7 (- 2)) (snd (- 3, 0 :: int)) (snd (1, 1 :: int))
               = Finite 7 (- 2)"
    by (simp add: f64_simps)
  have fits: "\<bar>f64_value (- 5) (- 2)\<bar> < 2 ^ 63" "\<bar>f64_value 7 (- 2)\<bar> < 2 ^ 63"
    by (simp_all add: f64_value_def)
  have stored: "to_level0 (Finite 7 (- 2)) (- 3, 0) (1, 1) = (- 1, 1)"
    by (simp add: to_level0_def f64_simps)
  from to_level0_truncates [OF row col fits] row col fits stored
  show ?thesis by simp
qed

text \<open>
  The claim as stated, rounding to the nearest integer, fails for the scale 1.75, the
  origin 0 and the relative location 1: the float64 value is exactly 1.75, the code
  stores 1, the nearest integer is 2.
\<close>

theorem to_level0_nearest_counterexample:
  "level0_float (Finite 7 (- 2)) 0 1 = Finite 7 (- 2)
   \<and> f64_value 7 (- 2) = 7 / 4
   \<and> to_level0 (Finite 7 (- 2)) (0, 0) (1, 1) = (1, 1)
   \<and> to_level0 (Finite 7 (- 2)) (0, 0) (1, 1)
       \<noteq> (round (7 / 4 * real_of_int 1 + real_of_int 0),
           round (7 / 4 * real_of_int 1 + real_of_int 0))"
  by (simp add: to_level0_def f64_simps f64_value_def round_def)

text \<open>
  Rounding to float64 shows in the stored coordinate: with the float nearest to 0.7 as
  scale, \<open>6305039478318694 * 2 ^ - 53\<close>, the product with 10 is rounded to 7 although
  the exact product is below 7.  And a value beyond int64 is stored as \<open>- 2 ^ 63\<close>: the
  scale \<open>1e19\<close> is \<open>4882812500000000 * 2 ^ 11\<close>.
\<close>

lemma to_level0_rounds_product:
  "to_level0 (Finite 6305039478318694 (- 53)) (0, 0) (10, 10) = (7, 7)
   \<and> f64_value 6305039478318694 (- 53) * 10 < 7"
  by (simp add: to_level0_def f64_simps f64_value_def)

lemma to_level0_beyond_int64:
  "to_level0 (Finite 4882812500000000 11) (0, 0) (1, 1) = (- (2 ^ 63), - (2 ^ 63))"
  by (simp add: to_level0_def f64_simps)

section \<open>Properties of tiling a single slide\<close>

text \<open>
  Claim C9.  When \<^verbatim>\<open>process_one_slide\<close> has returned and both CSV files can be read,
  \<^verbatim>\<open>prepare_single_slide_dataset\<close> raises \<^verbatim>\<open>AssertionError\<close> if \<^verbatim>\<open>dataset.csv\<close> has no
  data row or \<^verbatim>\<open>failed_tiles.csv\<close> has at least one record, and returns normally
  otherwise.
\<close>

theorem prepare_single_slide_dataset_asserts:
  assumes processed:
      "process_one_slide tools
         \<lparr>slide_id = os_path_basename slide_file, image_file = slide_file,
          image_path = None, metadata = []\<rparr>
         level 0 tile_size None (1 / 10)
         (path_join save_dir ''output'') (path_join save_dir ''thumbnails'') True
         (emit (Printed ''Processing slide'')
            (if path_exists w save_dir
             then emit (Printed ''Warning: Directory already exists'') w else w))
       = (Inr slide_dir, w')"
    and rows: "pd_read_csv_len w' (path_join slide_dir ''dataset.csv'') = Inr n"
    and failed: "pd_read_csv_len w' (path_join slide_dir ''failed_tiles.csv'') = Inr m"
  shows "fst (prepare_single_slide_dataset tools slide_file save_dir level tile_size w)
         = (if n = 0 \<or> 0 < m then Inl AssertionError else Inr ())"
  unfolding prepare_single_slide_dataset_def Let_def
  by (simp add: processed rows failed)

text \<open>
  A slide with a failed tile, a slide without surviving tiles, and a slide whose only
  tile is saved.
\<close>

theorem prepare_single_slide_dataset_asserts_witness:
  "pd_read_csv_len
     (snd (process_one_slide (demo_tools [50, 3, 100, 77])
             \<lparr>slide_id = os_path_basename ''wsi/s1.svs'', image_file = ''wsi/s1.svs'',
              image_path = None, metadata = []\<rparr>
             0 0 256 None (1 / 10) (path_join ''save'' ''output'') (path_join ''save'' ''thumbnails'')
             True
             (emit (Printed ''Processing slide'')
                (if path_exists empty_world ''save''
                 then emit (Printed ''Warning: Directory already exists'') empty_world
                 else empty_world))))
     (path_join ''save/output/s1.svs'' ''failed_tiles.csv'') = Inr 1
   \<and> fst (prepare_single_slide_dataset (demo_tools [50, 3, 100, 77]) ''wsi/s1.svs'' ''save''
            0 256 empty_world) = Inl AssertionError
   \<and> fst (prepare_single_slide_dataset (demo_tools [3, 100]) ''wsi/s1.svs'' ''save''
            0 256 empty_world) = Inl AssertionError
   \<and> fst (prepare_single_slide_dataset (demo_tools [50]) ''wsi/s1.svs'' ''save''
            0 256 empty_world) = Inr ()"
proof -
  let ?sample = "\<lparr>slide_id = os_path_basename ''wsi/s1.svs'', image_file = ''wsi/s1.svs'',
                   image_path = None, metadata = []\<rparr>"
  let ?start = "emit (Printed ''Processing slide'')
                  (if path_exists empty_world ''save''
                   then emit (Printed ''Warning: Directory already exists'') empty_world
                   else empty_world)"
  let ?run = "\<lambda>roi. process_one_slide (demo_tools roi) ?sample 0 0 256 None (1 / 10)
                      (path_join ''save'' ''output'') (path_join ''save'' ''thumbnails'') True ?start"
  note evals = demo_simps2 path_exists_def pd_read_csv_len_def
  have a: "?run [50, 3, 100, 77] = (Inr ''save/output/s1.svs'', snd (?run [50, 3, 100, 77]))"
    by (simp add: prod_eq_iff evals)
  have a1: "pd_read_csv_len (snd (?run [50, 3, 100, 77]))
              (path_join ''save/output/s1.svs'' ''dataset.csv'') = Inr 1"
    by (simp add: evals)
  have a2: "pd_read_csv_len (snd (?run [50, 3, 100, 77]))
              (path_join ''save/output/s1.svs'' ''failed_tiles.csv'') = Inr 1"
    by (simp add: evals)
  have b: "?run [3, 100] = (Inr ''save/output/s1.svs'', snd (?run [3, 100]))"
    by (simp add: prod_eq_iff evals)
  have b1: "pd_read_csv_len (snd (?run [3, 100]))
              (path_join ''save/output/s1.svs'' ''dataset.csv'') = Inr 0"
    by (simp add: evals)
  have b2: "pd_read_csv_len (snd (?run [3, 100]))
              (path_join ''save/output/s1.svs'' ''failed_tiles.csv'') = Inr 0"
    by (simp add: evals)
  have c: "?run [50] = (Inr ''save/output/s1.svs'', snd (?run [50]))"
    by (simp add: prod_eq_iff evals)
  have c1: "pd_read_csv_len (snd (?run [50]))
              (path_join ''save/output/s1.svs'' ''dataset.csv'') = Inr 1"
    by (simp add: evals)
  have c2: "pd_read_csv_len (snd (?run [50]))
              (path_join ''save/output/s1.svs'' ''failed_tiles.csv'') = Inr 0"
    by (simp add: evals)
  from prepare_single_slide_dataset_asserts [OF a a1 a2]
       prepare_single_slide_dataset_asserts [OF b b1 b2]
       prepare_single_slide_dataset_asserts [OF c c1 c2] a2
  show ?thesis by simp
qed

section \<open>Properties of the dataset orchestrator\<close>

lemma check_slide_files_fails:
  assumes "s \<in> set ds" and "\<forall>p. image_path s = Some p \<longrightarrow> \<not> slide_file_exists p"
  shows "check_slide_files slide_file_exists ds = Inl AssertionError
         \<or> check_slide_files slide_file_exists ds = Inl (KeyError ''image_path'')"
  using assms by (induction ds) (auto split: option.splits)

text \<open>
  What \<^verbatim>\<open>main\<close> checks is the \<^verbatim>\<open>"image_path"\<close> entry: if for one descriptor the entry
  is missing or names a file that does not exist, \<^verbatim>\<open>main\<close> raises before any slide is
  processed.
\<close>

lemma main_checks_image_path_first:
  assumes "s \<in> set (slice_upto slides_dataset n_slides)"
    and "\<forall>p. image_path s = Some p \<longrightarrow> \<not> slide_file_exists p"
  shows "main tools slide_file_exists merge_dataset_csv_files slides_dataset root_output_dir
           level tile_size margin foreground_threshold occupancy_threshold overwrite n_slides w
         = (Inl AssertionError, w)
       \<or> main tools slide_file_exists merge_dataset_csv_files slides_dataset root_output_dir
           level tile_size margin foreground_threshold occupancy_threshold overwrite n_slides w
         = (Inl (KeyError ''image_path''), w)"
  using check_slide_files_fails [OF assms]
  by (auto simp: main_def Let_def)

text \<open>
  So for descriptors whose \<^verbatim>\<open>"image_path"\<close> entry names the file of their
  \<^verbatim>\<open>"image"\<close> entry, a missing source image stops \<^verbatim>\<open>main\<close> before any slide is
  processed.
\<close>

lemma main_fails_fast_with_both_entries:
  assumes "\<forall>s \<in> set slides_dataset. image_path s = Some (image_file s)"
    and "s \<in> set (slice_upto slides_dataset n_slides)"
    and "\<not> slide_file_exists (image_file s)"
  shows "main tools slide_file_exists merge_dataset_csv_files slides_dataset root_output_dir
           level tile_size margin foreground_threshold occupancy_threshold overwrite n_slides w
         = (Inl AssertionError, w)"
proof -
  have "set (slice_upto slides_dataset n_slides) \<subseteq> set slides_dataset"
    by (auto simp: slice_upto_def split: option.splits dest: in_set_takeD)
  with assms have every: "\<forall>s \<in> set (slice_upto slides_dataset n_slides).
                            image_path s = Some (image_file s)"
    by auto
  have no_key: "check_slide_files slide_file_exists ds \<noteq> Inl (KeyError ''image_path'')"
    if "\<forall>s \<in> set ds. image_path s = Some (image_file s)" for ds
    using that by (induction ds) auto
  from every assms have "\<forall>p. image_path s = Some p \<longrightarrow> \<not> slide_file_exists p"
    by auto
  from check_slide_files_fails [OF assms(2) this] no_key [OF every]
  have "check_slide_files slide_file_exists (slice_upto slides_dataset n_slides)
          = Inl AssertionError"
    by simp
  then show ?thesis
    by (simp add: main_def)
qed

text \<open>
  Claim C6.  The claim does not hold of the code for the descriptor the repository
  builds (line 362) and the input section documents, with the entries \<^verbatim>\<open>"image"\<close>,
  \<^verbatim>\<open>"slide_id"\<close> and \<^verbatim>\<open>"metadata"\<close>: line 303 looks up \<^verbatim>\<open>"image_path"\<close>, not the
  \<^verbatim>\<open>"image"\<close> entry that line 174 opens.  The file of the slide exists, yet \<^verbatim>\<open>main\<close>
  raises \<^verbatim>\<open>KeyError\<close> and verifies nothing.
\<close>

theorem main_raises_on_plain_descriptor:
  "demo_disk (image_file demo_sample_plain)
   \<and> main (demo_tools [50]) demo_disk demo_merge [demo_sample_plain] ''out''
        0 256 0 None (1 / 10) False None empty_world
      = (Inl (KeyError ''image_path''), empty_world)"
  by (simp add: main_def slice_upto_def demo_sample_plain_def demo_disk_def)

section \<open>Coordinates in tile file names\<close>

lemma digit_cases: "d < 10 \<Longrightarrow> d \<in> {0, 1, 2, 3, 4, 5, 6, 7, 8, 9::nat}"
  by auto

lemma digit_char_props:
  assumes "d < 10"
  shows "is_digit (digit_char d)" and "digit_val (digit_char d) = d"
    and "\<not> is_space (digit_char d)"
    and "digit_char d \<notin> {CHR ''x'', CHR ''y'', CHR ''_'', CHR ''.'', CHR ''/'', CHR ''-'', CHR ''+''}"
  using digit_cases [OF assms]
  by (auto simp: is_digit_def digit_char_def digit_val_def is_space_def)

lemma is_digit_props:
  assumes "is_digit c"
  shows "\<not> is_space c"
    and "c \<notin> {CHR ''x'', CHR ''y'', CHR ''_'', CHR ''.'', CHR ''/'', CHR ''-'', CHR ''+''}"
  using assms by (auto simp: is_digit_def is_space_def)

lemma py_str_nat_digits: "list_all is_digit (py_str_nat n)"
proof (induction n rule: py_str_nat.induct)
  case (1 n)
  show ?case
  proof (cases "n < 10")
    case True
    then show ?thesis by (simp add: py_str_nat.simps [of n] digit_char_props)
  next
    case False
    with 1 show ?thesis by (simp add: py_str_nat.simps [of n] digit_char_props)
  qed
qed

lemma py_str_nat_nonempty: "py_str_nat n \<noteq> []"
  by (subst py_str_nat.simps) simp

lemma digits_value_snoc: "digits_value (ds @ [c]) = 10 * digits_value ds + digit_val c"
  by (simp add: digits_value_def)

lemma digits_value_py_str_nat: "digits_value (py_str_nat n) = n"
proof (induction n rule: py_str_nat.induct)
  case (1 n)
  show ?case
  proof (cases "n < 10")
    case True
    then show ?thesis
      by (simp add: py_str_nat.simps [of n] digits_value_def digit_char_props)
  next
    case False
    with 1 show ?thesis
      by (simp add: py_str_nat.simps [of n] digits_value_snoc digit_char_props)
  qed
qed

lemma digit_run_all_digits: "ds \<noteq> [] \<Longrightarrow> list_all is_digit ds \<Longrightarrow> digit_run ds"
  by (induction ds rule: digit_run.induct) (auto simp: is_digit_def)

lemma py_strip_digits:
  assumes "ds \<noteq> []" "list_all is_digit ds"
  shows "py_strip ds = ds"
proof -
  from assms have h: "\<not> is_space (hd ds)"
    by (cases ds) (auto simp: is_digit_props)
  from assms have "\<not> is_space (last ds)"
    by (auto simp: list_all_iff is_digit_props)
  with assms(1) have l: "\<not> is_space (hd (rev ds))"
    by (simp add: hd_rev)
  from assms(1) h have 1: "dropWhile is_space ds = ds" by (cases ds) auto
  from assms(1) have "rev ds \<noteq> []" by simp
  with l have 2: "dropWhile is_space (rev ds) = rev ds"
    by (cases "rev ds") simp_all
  show ?thesis by (simp add: py_strip_def 1 2)
qed

lemma py_int_digits:
  assumes "ds \<noteq> []" "list_all is_digit ds"
  shows "py_int ds = Inr (int (digits_value ds))"
proof -
  from assms obtain c cs where ds: "ds = c # cs" and c: "is_digit c"
    by (cases ds) auto
  from c have sign: "c \<noteq> CHR ''-''" "c \<noteq> CHR ''+''"
    by (auto simp: is_digit_def)
  from assms(2) have keep: "filter is_digit ds = ds"
    by (simp add: list_all_iff)
  have run: "digit_run ds"
    using assms by (rule digit_run_all_digits)
  have strip: "py_strip ds = ds"
    using assms by (rule py_strip_digits)
  have "py_int ds = (if digit_run ds then Inr (int (digits_value (filter is_digit ds)))
                     else Inl ValueError)"
    unfolding py_int_def strip Let_def using sign by (simp add: ds)
  with run keep show ?thesis by simp
qed

lemma py_int_py_str_nat: "py_int (py_str_nat n) = Inr (int n)"
  by (simp add: py_int_digits py_str_nat_nonempty py_str_nat_digits digits_value_py_str_nat)

lemma py_split_png:
  "CHR ''.'' \<notin> set s \<Longrightarrow> py_split ''.png'' (s @ ''.png'') = [s, []]"
  by (induction s) auto

lemma py_split_no_sep: "CHR ''_'' \<notin> set s \<Longrightarrow> py_split ''_'' s = [s]"
  by (induction s) auto

lemma py_split_underscore:
  "CHR ''_'' \<notin> set a \<Longrightarrow> CHR ''_'' \<notin> set b \<Longrightarrow> py_split ''_'' (a @ ''_'' @ b) = [a, b]"
  by (induction a) (auto simp: py_split_no_sep)

lemma str_remove_suffix:
  "c \<notin> set ds \<Longrightarrow> str_remove c (ds @ [c]) = ds"
  by (auto simp: str_remove_def filter_id_conv)

lemma bit_length_2_24: "bit_length 16777216 = 25"
  by (simp add: bit_length.simps)

lemma float32_small: "n \<le> 2 ^ 24 \<Longrightarrow> float32_of_nat n = n"
proof (cases "n < 2 ^ 24")
  case True
  then show ?thesis by (simp add: float32_of_nat_def)
next
  case False
  assume "n \<le> 2 ^ 24"
  with False have "n = 2 ^ 24" by simp
  then show ?thesis by (simp add: float32_of_nat_def bit_length_2_24 Let_def)
qed

lemma py_str_nat_set: "c \<in> set (py_str_nat n) \<Longrightarrow> is_digit c"
  using py_str_nat_digits [of n] by (simp add: list_all_iff)

lemma float32_of_int_small: "n \<le> 2 ^ 24 \<Longrightarrow> float32_of_int (int n) = int n"
  by (simp add: float32_of_int_def float32_small)

lemma torch_float_coords_small:
  assumes "x \<le> 2 ^ 24" "y \<le> 2 ^ 24"
  shows "torch_float_coords (int x) (int y) = Inr (int x, int y)"
proof -
  from assms have "int x < 2 ^ 63" "int y < 2 ^ 63" by simp_all
  moreover have "- (2 ^ 63) \<le> int x" "- (2 ^ 63) \<le> int y" by simp_all
  ultimately show ?thesis
    using assms by (simp add: torch_float_coords_def float32_of_int_small)
qed

lemma parse_tile_file_name:
  "py_split ''_'' (hd (py_split ''.png'' (tile_file_name x y)))
     = [py_str_nat x @ ''x'', py_str_nat y @ ''y'']"
proof -
  let ?s = "py_str_nat x @ ''x_'' @ py_str_nat y @ ''y''"
  have "CHR ''.'' \<notin> set ?s"
    by (auto dest!: py_str_nat_set simp: is_digit_def)
  then have "py_split ''.png'' (?s @ ''.png'') = [?s, []]"
    by (rule py_split_png)
  then have 1: "hd (py_split ''.png'' (tile_file_name x y)) = ?s"
    by (simp add: tile_file_name_def)
  have "CHR ''_'' \<notin> set (py_str_nat x @ ''x'')" "CHR ''_'' \<notin> set (py_str_nat y @ ''y'')"
    by (auto dest!: py_str_nat_set simp: is_digit_def)
  then have "py_split ''_'' ((py_str_nat x @ ''x'') @ ''_'' @ (py_str_nat y @ ''y''))
               = [py_str_nat x @ ''x'', py_str_nat y @ ''y'']"
    by (rule py_split_underscore)
  with 1 show ?thesis by simp
qed

lemma py_int_after_remove:
  "c \<in> {CHR ''x'', CHR ''y''} \<Longrightarrow> py_int (str_remove c (py_str_nat n @ [c])) = Inr (int n)"
proof -
  assume "c \<in> {CHR ''x'', CHR ''y''}"
  then have "c \<notin> set (py_str_nat n)"
    by (auto dest!: py_str_nat_set simp: is_digit_def)
  then show ?thesis
    by (simp add: str_remove_suffix py_int_py_str_nat)
qed

text \<open>Within int64 the entry holds the float32 values of the two integers.\<close>

lemma torch_float_coords_int64:
  assumes "x < 2 ^ 63" "y < 2 ^ 63"
  shows "torch_float_coords (int x) (int y)
           = Inr (int (float32_of_nat x), int (float32_of_nat y))"
proof -
  from assms have "int x < 2 ^ 63" "int y < 2 ^ 63" by simp_all
  moreover have "- (2 ^ 63) \<le> int x" "- (2 ^ 63) \<le> int y" by simp_all
  ultimately show ?thesis
    by (simp add: torch_float_coords_def float32_of_int_def)
qed

lemma getitem_coords_float32:
  assumes path: "list_get image_paths idx = Inr p"
    and name: "os_path_basename p = tile_file_name x y"
    and int64: "x < 2 ^ 63" "y < 2 ^ 63"
    and opened: "open_rgb p = Inr pic"
    and transformed: "(case transform of None \<Rightarrow> Inr pic | Some f \<Rightarrow> f pic) = Inr pic'"
  shows "getitem open_rgb transform image_paths idx
           = Inr \<lparr>img = pic', coords = (int (float32_of_nat x), int (float32_of_nat y))\<rparr>"
proof -
  have x: "py_int (str_remove (CHR ''x'') (py_str_nat x @ ''x'')) = Inr (int x)"
    by (rule py_int_after_remove) simp
  have y: "py_int (str_remove (CHR ''y'') (py_str_nat y @ ''y'')) = Inr (int y)"
    by (rule py_int_after_remove) simp
  show ?thesis
    unfolding getitem_def
    by (simp add: path name parse_tile_file_name x y opened transformed
          torch_float_coords_int64 [OF int64])
qed

lemmas string_simps = os_path_basename_def tile_file_name_def py_str_nat.simps digit_char_def
  getitem_def list_get_def py_int_def py_strip_def is_space_def is_digit_def digits_value_def
  digit_val_def str_remove_def torch_float_coords_def float32_of_int_def float32_of_nat_def
  bit_length.simps Let_def

text \<open>
  Claim C8, amended.  For \<open>x\<close> and \<open>y\<close> up to \<open>2 ^ 24\<close>, \<^verbatim>\<open>__getitem__\<close> on a path
  whose base name is \<^verbatim>\<open><x>x_<y>y.png\<close> returns \<open>(x, y)\<close> in its \<^verbatim>\<open>coords\<close> entry,
  provided the image opens and the transform succeeds.  The integers read from the name
  are exact; the entry is a float32 tensor, which holds every integer up to \<open>2 ^ 24\<close>.
\<close>

theorem getitem_recovers_coords:
  assumes path: "list_get image_paths idx = Inr p"
    and name: "os_path_basename p = tile_file_name x y"
    and small: "x \<le> 2 ^ 24" "y \<le> 2 ^ 24"
    and opened: "open_rgb p = Inr pic"
    and transformed: "(case transform of None \<Rightarrow> Inr pic | Some f \<Rightarrow> f pic) = Inr pic'"
  shows "getitem open_rgb transform image_paths idx = Inr \<lparr>img = pic', coords = (int x, int y)\<rparr>"
proof -
  have x: "py_int (str_remove (CHR ''x'') (py_str_nat x @ ''x'')) = Inr (int x)"
    by (rule py_int_after_remove) simp
  have y: "py_int (str_remove (CHR ''y'') (py_str_nat y @ ''y'')) = Inr (int y)"
    by (rule py_int_after_remove) simp
  show ?thesis
    unfolding getitem_def
    by (simp add: path name parse_tile_file_name x y opened transformed
          torch_float_coords_small [OF small])
qed

theorem getitem_recovers_coords_witness:
  "list_get [''tiles/256x_512y.png''] 0 = Inr ''tiles/256x_512y.png''
   \<and> os_path_basename ''tiles/256x_512y.png'' = tile_file_name 256 512
   \<and> (256::nat) \<le> 2 ^ 24 \<and> (512::nat) \<le> 2 ^ 24
   \<and> getitem (\<lambda>p. Inr p) None [''tiles/256x_512y.png''] 0
       = Inr \<lparr>img = ''tiles/256x_512y.png'', coords = (256, 512)\<rparr>"
proof -
  have 1: "list_get [''tiles/256x_512y.png''] 0 = Inr ''tiles/256x_512y.png''"
    by (simp add: list_get_def)
  have 2: "os_path_basename ''tiles/256x_512y.png'' = tile_file_name 256 512"
    by (simp add: os_path_basename_def tile_file_name_def py_str_nat.simps digit_char_def)
  have 3: "(256::nat) \<le> 2 ^ 24" "(512::nat) \<le> 2 ^ 24" by simp_all
  from getitem_recovers_coords [where open_rgb = "\<lambda>p. Inr p" and transform = None
         and pic = "''tiles/256x_512y.png''" and pic' = "''tiles/256x_512y.png''", OF 1 2 3]
    1 2 3 show ?thesis by simp
qed

text \<open>
  The claim as stated, for every pair of non-negative integers, fails at
  \<open>x = 2 ^ 24 + 1\<close>: float32 rounds it to \<open>2 ^ 24\<close>.
\<close>

theorem getitem_coords_counterexample:
  "os_path_basename ''tiles/16777217x_0y.png'' = tile_file_name 16777217 0
   \<and> getitem (\<lambda>p. Inr ()) None [''tiles/16777217x_0y.png''] 0
       = Inr \<lparr>img = (), coords = (16777216, 0)\<rparr>
   \<and> getitem (\<lambda>p. Inr ()) None [''tiles/16777217x_0y.png''] 0
       \<noteq> Inr \<lparr>img = (), coords = (int 16777217, int 0)\<rparr>"
  by (simp add: string_simps)

end
